theory Spec2Isabelle
  imports Main "HOL-Library.Sublist"
begin

section \<open>Rcpp attributes: a shallow embedding of src/Attributes.cpp\<close>

text \<open>
  The development follows \<^verbatim>\<open>src/Attributes.cpp\<close> top to bottom: the file
  system helpers, the export filter, the code generators for the module
  block and the roxygen placeholders, \<^verbatim>\<open>SourceCppDynlib\<close> and its cache, the
  \<^verbatim>\<open>ExportsGenerator\<close> hierarchy, and the two entry points
  \<^verbatim>\<open>sourceCppContext\<close> and \<^verbatim>\<open>compileAttributes\<close>.

  Strings are byte lists (\<^typ>\<open>string\<close>), \<^verbatim>\<open>time_t\<close> is \<^typ>\<open>int\<close> (it is only
  compared), exceptions are values of the type \<open>error\<close>, and a function that
  touches the disk takes the file system and returns it, together with either
  the exception it threw or its result.  Progress output on \<^verbatim>\<open>Rcpp::Rcout\<close>
  (the \<^verbatim>\<open>verbose\<close> flag) changes no file and no return value and is left out.
\<close>

subsection \<open>Exceptions\<close>

text \<open>
  The three exceptions of \<^verbatim>\<open>Rcpp/exceptions.h\<close> the file throws;
  \<^verbatim>\<open>file_io_error\<close> has a constructor with and one without the \<^verbatim>\<open>errno\<close>.
\<close>

datatype error =
    file_io_error string
  | file_io_error_code int string
  | file_not_found string
  | file_exists string

subsection \<open>The file system\<close>

text \<open>
  What the code observes of the disk: the bytes of the regular files, the
  directories, the \<^verbatim>\<open>st_mtime\<close> of each path, the clock that stamps a path
  when it is written, and the ways a system call can fail: \<open>stat_errno\<close>
  gives the \<^verbatim>\<open>errno\<close> of a \<^verbatim>\<open>stat\<close> that fails for a reason other than
  \<^verbatim>\<open>ENOENT\<close>, \<open>ifstream_fails\<close> and \<open>ofstream_fails\<close> say whether opening the
  path for reading or for writing fails.
\<close>

record FileSystem =
  files :: "string \<Rightarrow> string option"
  dirs :: "string set"
  st_mtime :: "string \<Rightarrow> int"
  clock :: int
  stat_errno :: "string \<Rightarrow> int option"
  ifstream_fails :: "string \<Rightarrow> bool"
  ofstream_fails :: "string \<Rightarrow> bool"

definition path_exists :: "FileSystem \<Rightarrow> string \<Rightarrow> bool" where
  "path_exists fs p = (files fs p \<noteq> None \<or> p \<in> dirs fs)"

text \<open>Reading a stream to its end; a path that is not a regular file yields no bytes.\<close>

definition read_file :: "FileSystem \<Rightarrow> string \<Rightarrow> string" where
  "read_file fs p = (case files fs p of None \<Rightarrow> [] | Some c \<Rightarrow> c)"

text \<open>\<^verbatim>\<open>std::ofstream\<close> opened with \<^verbatim>\<open>trunc\<close>, written and closed.\<close>

definition write_file :: "string \<Rightarrow> string \<Rightarrow> FileSystem \<Rightarrow> FileSystem" where
  "write_file p s fs =
     fs\<lparr>files := (files fs)(p \<mapsto> s), st_mtime := (st_mtime fs)(p := clock fs)\<rparr>"

text \<open>\<^verbatim>\<open>std::ofstream\<close> opened with \<^verbatim>\<open>app\<close>, written and closed.\<close>

definition append_file :: "string \<Rightarrow> string \<Rightarrow> FileSystem \<Rightarrow> FileSystem" where
  "append_file p s fs = write_file p (read_file fs p @ s) fs"

text \<open>
  The functions of R's base environment the code calls back into.  Their
  return values are ignored by the code, so only their effect is modelled:
  \<^verbatim>\<open>file.remove\<close> deletes a regular file, \<^verbatim>\<open>dir.create\<close> makes a directory
  where nothing exists yet,
  \<^verbatim>\<open>file.copy(from, to, overwrite = TRUE)\<close> copies the bytes when \<^verbatim>\<open>from\<close> is a
  regular file and \<^verbatim>\<open>to\<close> can be opened for writing, and does nothing otherwise.
\<close>

definition file_remove :: "string \<Rightarrow> FileSystem \<Rightarrow> FileSystem" where
  "file_remove p fs = fs\<lparr>files := (files fs)(p := None)\<rparr>"

definition dir_create :: "string \<Rightarrow> FileSystem \<Rightarrow> FileSystem" where
  "dir_create p fs =
     (if path_exists fs p then fs
      else fs\<lparr>dirs := insert p (dirs fs), st_mtime := (st_mtime fs)(p := clock fs)\<rparr>)"

definition file_copy :: "string \<Rightarrow> string \<Rightarrow> FileSystem \<Rightarrow> FileSystem" where
  "file_copy from to fs =
     (case files fs from of
        None \<Rightarrow> fs
      | Some c \<Rightarrow> if ofstream_fails fs to then fs else write_file to c fs)"

subsection \<open>FileInfo, removeFile, createDirectory\<close>

record FileInfo =
  fileinfo_path :: string
  fileinfo_exists :: bool
  fileinfo_lastModified :: int

definition FileInfo_new :: "string \<Rightarrow> FileSystem \<Rightarrow> error + FileInfo" where
  "FileInfo_new p fs =
     (case stat_errno fs p of
        Some e \<Rightarrow> Inl (file_io_error_code e p)
      | None \<Rightarrow>
          if path_exists fs p
          then Inr \<lparr>fileinfo_path = p, fileinfo_exists = True,
                    fileinfo_lastModified = st_mtime fs p\<rparr>
          else Inr \<lparr>fileinfo_path = p, fileinfo_exists = False,
                    fileinfo_lastModified = 0\<rparr>)"

definition removeFile :: "string \<Rightarrow> FileSystem \<Rightarrow> (error + unit) \<times> FileSystem" where
  "removeFile p fs =
     (case FileInfo_new p fs of
        Inl e \<Rightarrow> (Inl e, fs)
      | Inr fi \<Rightarrow>
          if fileinfo_exists fi then (Inr (), file_remove p fs) else (Inr (), fs))"

definition createDirectory :: "string \<Rightarrow> FileSystem \<Rightarrow> (error + unit) \<times> FileSystem" where
  "createDirectory p fs =
     (case FileInfo_new p fs of
        Inl e \<Rightarrow> (Inl e, fs)
      | Inr fi \<Rightarrow>
          if \<not> fileinfo_exists fi then (Inr (), dir_create p fs) else (Inr (), fs))"

subsection \<open>Strings and streams\<close>

definition endl :: string where
  "endl = [CHR 0x0A]"

definition dquote :: string where
  "dquote = [CHR 0x22]"

text \<open>\<^verbatim>\<open>std::string::find\<close>: the first position of the pattern, \<open>None\<close> for \<^verbatim>\<open>npos\<close>.\<close>

fun string_find :: "string \<Rightarrow> string \<Rightarrow> nat option" where
  "string_find [] t = (if t = [] then Some 0 else None)"
| "string_find (c # cs) t =
     (if prefix t (c # cs) then Some 0 else map_option Suc (string_find cs t))"

text \<open>
  \<^verbatim>\<open>operator<<\<close> for an \<^verbatim>\<open>int\<close>: the decimal digits, most significant first, after a
  minus sign for a negative number.
\<close>

definition digit_char :: "nat \<Rightarrow> char" where
  "digit_char d = ''0123456789'' ! d"

fun decimal :: "nat \<Rightarrow> string" where
  "decimal n =
     (if n < 10 then [digit_char n] else decimal (n div 10) @ [digit_char (n mod 10)])"

declare decimal.simps [simp del]

definition ostream_int :: "int \<Rightarrow> string" where
  "ostream_int i = (if i < 0 then CHR ''-'' # decimal (nat (- i)) else decimal (nat i))"

text \<open>
  The loops of the form
  \<^verbatim>\<open>for (i = 0; i < v.size(); i++) { os << v[i]; if (i != v.size()-1) os << sep; }\<close>.
\<close>

fun separated :: "string \<Rightarrow> string list \<Rightarrow> string" where
  "separated sep [] = []"
| "separated sep [x] = x"
| "separated sep (x # y # ys) = x @ sep @ separated sep (y # ys)"

subsection \<open>The parsed attributes\<close>

text \<open>
  \<^verbatim>\<open>AttributesParser.h\<close> is not among the sources.  The records below hold
  what the code reads through the accessors of its classes \<^verbatim>\<open>Argument\<close>,
  \<^verbatim>\<open>Function\<close>, \<^verbatim>\<open>Param\<close>, \<^verbatim>\<open>Attribute\<close> and \<^verbatim>\<open>SourceFileAttributes\<close>.
\<close>

record Argument =
  argument_name :: string
  argument_type :: string

record Function =
  function_type :: string
  function_name :: string
  function_arguments :: "Argument list"

record Param =
  param_name :: string
  param_value :: string

record Attribute =
  attribute_name :: string
  attribute_params :: "Param list"
  attribute_function :: Function
  attribute_roxygen :: "string list"

record SourceFileAttributes =
  sourceFile :: string
  attributes :: "Attribute list"
  prototypes :: "string list"
  interfaces :: "string list"

text \<open>
  Modelled from the spec: \<^verbatim>\<open>Function::empty\<close> is declared in the absent
  \<^verbatim>\<open>AttributesParser.h\<close>.  The spec gives an attribute an optional function,
  "empty if attribute is not function-level"; the empty function is the one
  without a name.
\<close>

definition function_empty :: "Function \<Rightarrow> bool" where
  "function_empty f = (function_name f = [])"

text \<open>
  Modelled from the spec: \<^verbatim>\<open>Function::renamedTo\<close> is declared in the absent
  header; it is "a renamed copy (same signature, different external name)".
\<close>

definition renamedTo :: "Function \<Rightarrow> string \<Rightarrow> Function" where
  "renamedTo f n = f\<lparr>function_name := n\<rparr>"

text \<open>
  Modelled from the spec: \<^verbatim>\<open>SourceFileAttributes::hasInterface\<close> is declared in
  the absent header; the spec gives a file "a declared interface-tag set".
\<close>

definition hasInterface :: "SourceFileAttributes \<Rightarrow> string \<Rightarrow> bool" where
  "hasInterface sa tag = (tag \<in> set (interfaces sa))"

text \<open>
  The rest of the absent header is a parameter of the model: the attribute
  names and interface tags (\<^verbatim>\<open>kExportAttribute\<close>, \<^verbatim>\<open>kDependsAttribute\<close>,
  \<^verbatim>\<open>kInterfaceCpp\<close>, \<^verbatim>\<open>kInterfaceR\<close>), the constructor
  \<^verbatim>\<open>SourceFileAttributes(path)\<close>, which reads and parses the file at the path, and
  \<^verbatim>\<open>operator<<\<close> for a \<^verbatim>\<open>Function\<close>, which prints its signature.
\<close>

record AttributesParser =
  kExportAttribute :: string
  kDependsAttribute :: string
  kInterfaceCpp :: string
  kInterfaceR :: string
  parseSourceFile :: "FileSystem \<Rightarrow> string \<Rightarrow> SourceFileAttributes"
  printFunction :: "Function \<Rightarrow> string"

subsection \<open>The export filter\<close>

definition isExportedFunction :: "AttributesParser \<Rightarrow> Attribute \<Rightarrow> bool" where
  "isExportedFunction P attribute =
     (attribute_name attribute = kExportAttribute P \<and>
      \<not> function_empty (attribute_function attribute))"

definition exportedName :: "Attribute \<Rightarrow> string" where
  "exportedName attribute =
     (if attribute_params attribute \<noteq> []
      then param_name (attribute_params attribute ! 0)
      else function_name (attribute_function attribute))"

subsection \<open>The module block and the roxygen placeholders\<close>

fun generateCppModuleFunctions :: "AttributesParser \<Rightarrow> Attribute list \<Rightarrow> string" where
  "generateCppModuleFunctions P [] = []"
| "generateCppModuleFunctions P (a # as) =
     (if isExportedFunction P a
      then ''    Rcpp::function('' @ dquote @ exportedName a @ dquote @ '', &''
             @ function_name (attribute_function a) @ '');'' @ endl
      else [])
     @ generateCppModuleFunctions P as"

definition generateCppModule ::
    "AttributesParser \<Rightarrow> string \<Rightarrow> SourceFileAttributes \<Rightarrow> string" where
  "generateCppModule P moduleName sa =
     ''RCPP_MODULE('' @ moduleName @ '') {'' @ endl
     @ generateCppModuleFunctions P (attributes sa)
     @ ''}'' @ endl"

definition generateRoxygenPlaceholder :: "Attribute \<Rightarrow> string" where
  "generateRoxygenPlaceholder attribute =
     exportedName attribute @ ''<- function(''
     @ separated '', '' (map argument_name (function_arguments (attribute_function attribute)))
     @ '') {}'' @ endl"

fun generateRoxygen :: "AttributesParser \<Rightarrow> Attribute list \<Rightarrow> string" where
  "generateRoxygen P [] = []"
| "generateRoxygen P (a # as) =
     (if isExportedFunction P a \<and> attribute_roxygen a \<noteq> []
      then endl @ concat (map (\<lambda>l. l @ endl) (attribute_roxygen a))
             @ generateRoxygenPlaceholder a @ endl
      else [])
     @ generateRoxygen P as"

subsection \<open>SourceCppDynlib\<close>

text \<open>
  \<^verbatim>\<open>Rcpp::List platform\<close> is read at the keys \<^verbatim>\<open>file.sep\<close> and \<^verbatim>\<open>dynlib.ext\<close>.
\<close>

record Platform =
  file_sep :: string
  dynlib_ext :: string

text \<open>
  What the R session answers when the constructor calls back into it:
  \<^verbatim>\<open>basename\<close>, the path \<^verbatim>\<open>tempfile("sourcecpp_")\<close> returns and the number
  \<^verbatim>\<open>sample(100000, 1)\<close> draws.  The last two differ from call to call, so each
  construction is given its own.
\<close>

record RSession =
  basename :: "string \<Rightarrow> string"
  tempfile :: string
  sample :: int

record SourceCppDynlib =
  cppSourcePath :: string
  cppSourceLastModified :: int
  generatedCpp :: string
  cppSourceFilename :: string
  moduleName :: string
  buildDirectory :: string
  fileSep :: string
  dynlibExt :: string
  exportedFunctions :: "string list"
  depends :: "string list"

text \<open>
  The default constructor.  It leaves \<^verbatim>\<open>cppSourceLastModified_\<close> uninitialised;
  the field is never read, and stands as 0 here.
\<close>

definition SourceCppDynlib_default :: SourceCppDynlib where
  "SourceCppDynlib_default =
     \<lparr>cppSourcePath = [], cppSourceLastModified = 0, generatedCpp = [],
      cppSourceFilename = [], moduleName = [], buildDirectory = [], fileSep = [],
      dynlibExt = [], exportedFunctions = [], depends = []\<rparr>"

definition isEmpty :: "SourceCppDynlib \<Rightarrow> bool" where
  "isEmpty u = (cppSourcePath u = [])"

definition dynlibFilename :: "SourceCppDynlib \<Rightarrow> string" where
  "dynlibFilename u = moduleName u @ dynlibExt u"

definition dynlibPath :: "SourceCppDynlib \<Rightarrow> string" where
  "dynlibPath u = buildDirectory u @ fileSep u @ dynlibFilename u"

definition generatedCppSourcePath :: "SourceCppDynlib \<Rightarrow> string" where
  "generatedCppSourcePath u = buildDirectory u @ fileSep u @ cppSourceFilename u"

definition isBuilt :: "SourceCppDynlib \<Rightarrow> FileSystem \<Rightarrow> error + bool" where
  "isBuilt u fs =
     (case FileInfo_new (dynlibPath u) fs of
        Inl e \<Rightarrow> Inl e
      | Inr dynlib \<Rightarrow> Inr (fileinfo_exists dynlib))"

text \<open>The two \<^verbatim>\<open>FileInfo\<close> of the comparison are built left to right.\<close>

definition isSourceDirty :: "SourceCppDynlib \<Rightarrow> FileSystem \<Rightarrow> error + bool" where
  "isSourceDirty u fs =
     (case FileInfo_new (cppSourcePath u) fs of
        Inl e \<Rightarrow> Inl e
      | Inr src \<Rightarrow>
     (case FileInfo_new (generatedCppSourcePath u) fs of
        Inl e \<Rightarrow> Inl e
      | Inr gen \<Rightarrow>
          if fileinfo_lastModified src > fileinfo_lastModified gen then Inr True
          else
     (case FileInfo_new (dynlibPath u) fs of
        Inl e \<Rightarrow> Inl e
      | Inr dynlib \<Rightarrow>
          if \<not> fileinfo_exists dynlib then Inr True else Inr False)))"

text \<open>The last loop of \<^verbatim>\<open>regenerateSource\<close>, one function for each vector it fills.\<close>

fun discoverExportedFunctions :: "AttributesParser \<Rightarrow> Attribute list \<Rightarrow> string list" where
  "discoverExportedFunctions P [] = []"
| "discoverExportedFunctions P (a # as) =
     (if attribute_name a = kExportAttribute P \<and> \<not> function_empty (attribute_function a)
      then [exportedName a]
      else [])
     @ discoverExportedFunctions P as"

fun discoverDepends :: "AttributesParser \<Rightarrow> Attribute list \<Rightarrow> string list" where
  "discoverDepends P [] = []"
| "discoverDepends P (a # as) =
     (if attribute_name a = kExportAttribute P \<and> \<not> function_empty (attribute_function a)
      then []
      else if attribute_name a = kDependsAttribute P
      then map param_name (attribute_params a)
      else [])
     @ discoverDepends P as"

definition regenerateSource ::
    "AttributesParser \<Rightarrow> SourceCppDynlib \<Rightarrow> FileSystem
       \<Rightarrow> (error + SourceCppDynlib) \<times> FileSystem" where
  "regenerateSource P u fs =
     (let fs1 = file_copy (cppSourcePath u) (generatedCppSourcePath u) fs;
          sourceAttributes = parseSourceFile P fs1 (cppSourcePath u);
          code = generateCppModule P (moduleName u) sourceAttributes
      in if ofstream_fails fs1 (generatedCppSourcePath u)
         then (Inl (file_io_error (generatedCppSourcePath u)), fs1)
         else (Inr (u\<lparr>generatedCpp := code,
                      exportedFunctions :=
                        discoverExportedFunctions P (attributes sourceAttributes),
                      depends := discoverDepends P (attributes sourceAttributes)\<rparr>),
               append_file (generatedCppSourcePath u) (endl @ code) fs1))"

definition SourceCppDynlib_new ::
    "AttributesParser \<Rightarrow> RSession \<Rightarrow> string \<Rightarrow> Platform \<Rightarrow> FileSystem
       \<Rightarrow> (error + SourceCppDynlib) \<times> FileSystem" where
  "SourceCppDynlib_new P R path platform fs =
     (case FileInfo_new path fs of
        Inl e \<Rightarrow> (Inl e, fs)
      | Inr cppSourceFilenameInfo \<Rightarrow>
          if \<not> fileinfo_exists cppSourceFilenameInfo then (Inl (file_not_found path), fs)
          else
            let dir = map (\<lambda>c. if c = CHR 0x5C then CHR ''/'' else c) (tempfile R)
            in regenerateSource P
                 \<lparr>cppSourcePath = path,
                  cppSourceLastModified = fileinfo_lastModified cppSourceFilenameInfo,
                  generatedCpp = [],
                  cppSourceFilename = basename R path,
                  moduleName = ''sourceCpp_'' @ ostream_int (sample R),
                  buildDirectory = dir,
                  fileSep = file_sep platform,
                  dynlibExt = dynlib_ext platform,
                  exportedFunctions = [],
                  depends = []\<rparr>
                 (dir_create dir fs))"

subsection \<open>SourceCppDynlibCache\<close>

record Entry =
  entry_file :: string
  entry_code :: string
  entry_dynlib :: SourceCppDynlib

type_synonym SourceCppDynlibCache = "Entry list"

definition insertFile ::
    "string \<Rightarrow> SourceCppDynlib \<Rightarrow> SourceCppDynlibCache \<Rightarrow> SourceCppDynlibCache" where
  "insertFile file dynlib entries =
     entries @ [\<lparr>entry_file = file, entry_code = [], entry_dynlib = dynlib\<rparr>]"

definition insertCode ::
    "string \<Rightarrow> SourceCppDynlib \<Rightarrow> SourceCppDynlibCache \<Rightarrow> SourceCppDynlibCache" where
  "insertCode code dynlib entries =
     entries @ [\<lparr>entry_file = [], entry_code = code, entry_dynlib = dynlib\<rparr>]"

fun lookupByFile :: "string \<Rightarrow> SourceCppDynlibCache \<Rightarrow> SourceCppDynlib" where
  "lookupByFile file [] = SourceCppDynlib_default"
| "lookupByFile file (e # es) =
     (if entry_file e = file then entry_dynlib e else lookupByFile file es)"

fun lookupByCode :: "string \<Rightarrow> SourceCppDynlibCache \<Rightarrow> SourceCppDynlib" where
  "lookupByCode code [] = SourceCppDynlib_default"
| "lookupByCode code (e # es) =
     (if entry_code e = code then entry_dynlib e else lookupByCode code es)"

subsection \<open>sourceCppContext\<close>

record Context =
  context_moduleName :: string
  context_cppSourcePath :: string
  context_buildRequired :: bool
  context_buildDirectory :: string
  context_generatedCpp :: string
  context_exportedFunctions :: "string list"
  context_cppSourceFilename :: string
  context_dynlibFilename :: string
  context_dynlibPath :: string
  context_depends :: "string list"

definition make_context :: "SourceCppDynlib \<Rightarrow> bool \<Rightarrow> Context" where
  "make_context dynlib buildRequired =
     \<lparr>context_moduleName = moduleName dynlib,
      context_cppSourcePath = cppSourcePath dynlib,
      context_buildRequired = buildRequired,
      context_buildDirectory = buildDirectory dynlib,
      context_generatedCpp = generatedCpp dynlib,
      context_exportedFunctions = exportedFunctions dynlib,
      context_cppSourceFilename = cppSourceFilename dynlib,
      context_dynlibFilename = dynlibFilename dynlib,
      context_dynlibPath = dynlibPath dynlib,
      context_depends = depends dynlib\<rparr>"

text \<open>
  The static cache \<^verbatim>\<open>s_dynlibCache\<close> is passed in and returned with the file
  system.  \<open>sCode\<close> is \<open>None\<close> for \<^verbatim>\<open>R_NilValue\<close>.  An exception leaves the cache
  and the disk as they were when it was thrown.
\<close>

definition sourceCppContext ::
    "AttributesParser \<Rightarrow> RSession \<Rightarrow> string \<Rightarrow> string option \<Rightarrow> Platform
       \<Rightarrow> SourceCppDynlibCache \<Rightarrow> FileSystem
       \<Rightarrow> (error + Context) \<times> SourceCppDynlibCache \<times> FileSystem" where
  "sourceCppContext P R file sCode platform s_dynlibCache fs =
     (let code = (case sCode of None \<Rightarrow> [] | Some c \<Rightarrow> c);
          dynlib = (if code \<noteq> [] then lookupByCode code s_dynlibCache
                    else lookupByFile file s_dynlibCache)
      in if isEmpty dynlib then
           (case SourceCppDynlib_new P R file platform fs of
              (Inl e, fs') \<Rightarrow> (Inl e, s_dynlibCache, fs')
            | (Inr dynlib', fs') \<Rightarrow>
                (Inr (make_context dynlib' True),
                 (if code \<noteq> [] then insertCode code dynlib' s_dynlibCache
                  else insertFile file dynlib' s_dynlibCache),
                 fs'))
         else
           (case isSourceDirty dynlib fs of
              Inl e \<Rightarrow> (Inl e, s_dynlibCache, fs)
            | Inr True \<Rightarrow>
                (case regenerateSource P dynlib fs of
                   (Inl e, fs') \<Rightarrow> (Inl e, s_dynlibCache, fs')
                 | (Inr dynlib', fs') \<Rightarrow>
                     (Inr (make_context dynlib' True), s_dynlibCache, fs'))
            | Inr False \<Rightarrow>
                (case isBuilt dynlib fs of
                   Inl e \<Rightarrow> (Inl e, s_dynlibCache, fs)
                 | Inr built \<Rightarrow>
                     (Inr (make_context dynlib (\<not> built)), s_dynlibCache, fs))))"

subsection \<open>ExportsGenerator\<close>

record ExportsGenerator =
  targetFile :: string
  commentPrefix :: string
  existingCode :: string
  codeStream :: string

definition generatorToken :: string where
  "generatorToken = ''10BE3573-1514-4C36-9D1C-5A225CD40393''"

definition isSafeToOverwrite :: "ExportsGenerator \<Rightarrow> bool" where
  "isSafeToOverwrite g =
     (existingCode g = [] \<or> string_find (existingCode g) generatorToken \<noteq> None)"

text \<open>The constructor reads the disk and writes nothing.\<close>

definition ExportsGenerator_new ::
    "string \<Rightarrow> string \<Rightarrow> FileSystem \<Rightarrow> error + ExportsGenerator" where
  "ExportsGenerator_new target commentPfx fs =
     (case FileInfo_new target fs of
        Inl e \<Rightarrow> Inl e
      | Inr fi \<Rightarrow>
          if fileinfo_exists fi \<and> ifstream_fails fs target then Inl (file_io_error target)
          else
            let g = \<lparr>targetFile = target, commentPrefix = commentPfx,
                     existingCode = (if fileinfo_exists fi then read_file fs target else []),
                     codeStream = []\<rparr>
            in if \<not> isSafeToOverwrite g then Inl (file_exists target) else Inr g)"

text \<open>\<^verbatim>\<open>ostr() << s\<close>.\<close>

definition ostr :: "string \<Rightarrow> ExportsGenerator \<Rightarrow> ExportsGenerator" where
  "ostr s g = g\<lparr>codeStream := codeStream g @ s\<rparr>"

text \<open>The header of \<^verbatim>\<open>ExportsGenerator::commit\<close>, with the preamble.\<close>

definition headerStream :: "ExportsGenerator \<Rightarrow> string \<Rightarrow> string" where
  "headerStream g preamble =
     commentPrefix g @ '' This file was generated by '' @ ''Rcpp::compileAttributes'' @ endl
     @ commentPrefix g @ '' Generator token: '' @ generatorToken @ endl @ endl
     @ (if preamble \<noteq> [] then preamble else [])"

text \<open>
  \<^verbatim>\<open>ExportsGenerator::commit(preamble)\<close>.  The \<^verbatim>\<open>FileInfo\<close> of the first test is
  built only when the generated code is empty (\<^verbatim>\<open>&&\<close> evaluates its right
  operand on demand).
\<close>

definition ExportsGenerator_commit ::
    "string \<Rightarrow> ExportsGenerator \<Rightarrow> FileSystem \<Rightarrow> (error + bool) \<times> FileSystem" where
  "ExportsGenerator_commit preamble g fs =
     (let code = codeStream g;
          generatedCode = headerStream g preamble @ code;
          compare =
            (if generatedCode \<noteq> existingCode g
             then if ofstream_fails fs (targetFile g)
                  then (Inl (file_io_error (targetFile g)), fs)
                  else (Inr True, write_file (targetFile g) generatedCode fs)
             else (Inr False, fs))
      in if code = [] then
           (case FileInfo_new (targetFile g) fs of
              Inl e \<Rightarrow> (Inl e, fs)
            | Inr fi \<Rightarrow> if \<not> fileinfo_exists fi then (Inr False, fs) else compare)
         else compare)"

definition ExportsGenerator_remove ::
    "ExportsGenerator \<Rightarrow> FileSystem \<Rightarrow> (error + unit) \<times> FileSystem" where
  "ExportsGenerator_remove g fs = removeFile (targetFile g) fs"

subsection \<open>CppExportsGenerator\<close>

record CppExportsGenerator =
  cpp_base :: ExportsGenerator

definition CppExportsGenerator_new ::
    "string \<Rightarrow> string \<Rightarrow> FileSystem \<Rightarrow> error + CppExportsGenerator" where
  "CppExportsGenerator_new packageDir sep fs =
     (case ExportsGenerator_new
             (packageDir @ sep @ ''src'' @ sep @ ''RcppExports.cpp'') ''//'' fs of
        Inl e \<Rightarrow> Inl e
      | Inr b \<Rightarrow> Inr \<lparr>cpp_base = b\<rparr>)"

definition CppExportsGenerator_writeBegin :: "CppExportsGenerator \<Rightarrow> CppExportsGenerator" where
  "CppExportsGenerator_writeBegin g =
     g\<lparr>cpp_base := ostr (''RCPP_MODULE(RcppExports) {'' @ endl) (cpp_base g)\<rparr>"

definition CppExportsGenerator_writeFunctions ::
    "AttributesParser \<Rightarrow> SourceFileAttributes \<Rightarrow> CppExportsGenerator \<Rightarrow> CppExportsGenerator" where
  "CppExportsGenerator_writeFunctions P sa g =
     g\<lparr>cpp_base := ostr (generateCppModuleFunctions P (attributes sa)) (cpp_base g)\<rparr>"

definition CppExportsGenerator_writeEnd :: "CppExportsGenerator \<Rightarrow> CppExportsGenerator" where
  "CppExportsGenerator_writeEnd g = g\<lparr>cpp_base := ostr (''}'' @ endl) (cpp_base g)\<rparr>"

definition includesPreamble :: "string list \<Rightarrow> string" where
  "includesPreamble includes =
     (if includes \<noteq> [] then concat (map (\<lambda>i. i @ endl) includes) @ endl else [])"

definition prototypesPreamble :: "string list \<Rightarrow> string" where
  "prototypesPreamble protos =
     (if protos \<noteq> [] then concat (map (\<lambda>p. p @ '';'' @ endl) protos) @ endl else [])"

definition CppExportsGenerator_commit ::
    "string list \<Rightarrow> string list \<Rightarrow> CppExportsGenerator \<Rightarrow> FileSystem
       \<Rightarrow> (error + bool) \<times> FileSystem" where
  "CppExportsGenerator_commit includes protos g fs =
     ExportsGenerator_commit (includesPreamble includes @ prototypesPreamble protos)
       (cpp_base g) fs"

subsection \<open>CppIncludeGenerator\<close>

record CppIncludeGenerator =
  inc_base :: ExportsGenerator
  scope :: string
  includeDir :: string
  hasCppInterface :: bool

definition CppIncludeGenerator_new ::
    "string \<Rightarrow> string \<Rightarrow> string \<Rightarrow> FileSystem \<Rightarrow> error + CppIncludeGenerator" where
  "CppIncludeGenerator_new packageDir sep scp fs =
     (case ExportsGenerator_new
             (packageDir @ sep @ ''inst'' @ sep @ ''include'' @ sep @ scp @ ''.hpp'')
             ''//'' fs of
        Inl e \<Rightarrow> Inl e
      | Inr b \<Rightarrow>
          Inr \<lparr>inc_base = b, scope = scp,
               includeDir = packageDir @ sep @ ''inst'' @ sep @ ''include'',
               hasCppInterface = False\<rparr>)"

definition CppIncludeGenerator_writeBegin :: "CppIncludeGenerator \<Rightarrow> CppIncludeGenerator" where
  "CppIncludeGenerator_writeBegin g =
     g\<lparr>inc_base := ostr (''namespace '' @ scope g @ '' {'' @ endl) (inc_base g)\<rparr>"

text \<open>\<^verbatim>\<open>name.find_first_of('.') == 0\<close>: the name starts with a dot.\<close>

definition startsWithDot :: "string \<Rightarrow> bool" where
  "startsWithDot n = (case n of [] \<Rightarrow> False | c # cs \<Rightarrow> c = CHR ''.'')"

definition inlineStub :: "AttributesParser \<Rightarrow> Function \<Rightarrow> string" where
  "inlineStub P f =
     ''    inline '' @ printFunction P f @ '' {'' @ endl
     @ ''        static '' @ function_type f @ ''(*p_'' @ function_name f @ '')(''
     @ separated '','' (map argument_type (function_arguments f))
     @ '') = Rcpp::GetCppCallable('' @ dquote @ ''RcppExports'' @ dquote @ '', ''
     @ dquote @ function_name f @ dquote @ '');'' @ endl
     @ ''        return p_'' @ function_name f @ ''(''
     @ separated '','' (map argument_name (function_arguments f))
     @ '');'' @ endl
     @ ''    }'' @ endl"

fun generateInlineStubs :: "AttributesParser \<Rightarrow> Attribute list \<Rightarrow> string" where
  "generateInlineStubs P [] = []"
| "generateInlineStubs P (a # as) =
     (if isExportedFunction P a
      then let f = renamedTo (attribute_function a) (exportedName a)
           in if startsWithDot (function_name f) then [] else inlineStub P f
      else [])
     @ generateInlineStubs P as"

definition CppIncludeGenerator_writeFunctions ::
    "AttributesParser \<Rightarrow> SourceFileAttributes \<Rightarrow> CppIncludeGenerator \<Rightarrow> CppIncludeGenerator" where
  "CppIncludeGenerator_writeFunctions P sa g =
     (if \<not> hasInterface sa (kInterfaceCpp P) then g
      else g\<lparr>inc_base := ostr (generateInlineStubs P (attributes sa)) (inc_base g),
             hasCppInterface := True\<rparr>)"

definition CppIncludeGenerator_writeEnd :: "CppIncludeGenerator \<Rightarrow> CppIncludeGenerator" where
  "CppIncludeGenerator_writeEnd g = g\<lparr>inc_base := ostr (''}'' @ endl) (inc_base g)\<rparr>"

definition CppIncludeGenerator_commit ::
    "string list \<Rightarrow> string list \<Rightarrow> CppIncludeGenerator \<Rightarrow> FileSystem
       \<Rightarrow> (error + bool) \<times> FileSystem" where
  "CppIncludeGenerator_commit includes protos g fs =
     (if hasCppInterface g then
        (case createDirectory (includeDir g) fs of
           (Inl e, fs') \<Rightarrow> (Inl e, fs')
         | (Inr u, fs') \<Rightarrow>
             ExportsGenerator_commit (includesPreamble includes) (inc_base g) fs')
      else
        (case ExportsGenerator_remove (inc_base g) fs of
           (Inl e, fs') \<Rightarrow> (Inl e, fs')
         | (Inr u, fs') \<Rightarrow> (Inr False, fs')))"

subsection \<open>RExportsGenerator\<close>

record RExportsGenerator =
  r_base :: ExportsGenerator
  rExports :: "string list"

definition RExportsGenerator_new ::
    "string \<Rightarrow> string \<Rightarrow> FileSystem \<Rightarrow> error + RExportsGenerator" where
  "RExportsGenerator_new packageDir sep fs =
     (case ExportsGenerator_new
             (packageDir @ sep @ ''R'' @ sep @ ''RcppExports.R'') ''#'' fs of
        Inl e \<Rightarrow> Inl e
      | Inr b \<Rightarrow> Inr \<lparr>r_base = b, rExports = []\<rparr>)"

definition RExportsGenerator_writeBegin :: "RExportsGenerator \<Rightarrow> RExportsGenerator" where
  "RExportsGenerator_writeBegin g = g"

definition RExportsGenerator_writeFunctions ::
    "AttributesParser \<Rightarrow> SourceFileAttributes \<Rightarrow> RExportsGenerator \<Rightarrow> RExportsGenerator" where
  "RExportsGenerator_writeFunctions P sa g =
     (if hasInterface sa (kInterfaceR P)
      then g\<lparr>rExports :=
                rExports g @ map exportedName (filter (isExportedFunction P) (attributes sa)),
             r_base := ostr (generateRoxygen P (attributes sa)) (r_base g)\<rparr>
      else g)"

text \<open>
  The loop of \<^verbatim>\<open>writeEnd\<close>: each name in quotes, a comma and a line break after
  each but the last, 41 blanks before each but the first.
\<close>

fun rExportsList :: "string list \<Rightarrow> string" where
  "rExportsList [] = []"
| "rExportsList [x] = dquote @ x @ dquote"
| "rExportsList (x # y # ys) =
     dquote @ x @ dquote @ '','' @ endl @ replicate 41 CHR '' '' @ rExportsList (y # ys)"

definition RExportsGenerator_writeEnd :: "RExportsGenerator \<Rightarrow> RExportsGenerator" where
  "RExportsGenerator_writeEnd g =
     g\<lparr>r_base :=
         ostr (''Rcpp::loadModule('' @ dquote @ ''RcppExports'' @ dquote @ '', ''
               @ (if length (rExports g) > 0
                  then ''what = c('' @ rExportsList (rExports g) @ ''))'' @ endl
                  else ''what = character())''))
           (r_base g)\<rparr>"

definition RExportsGenerator_commit ::
    "string list \<Rightarrow> string list \<Rightarrow> RExportsGenerator \<Rightarrow> FileSystem
       \<Rightarrow> (error + bool) \<times> FileSystem" where
  "RExportsGenerator_commit includes protos g fs = ExportsGenerator_commit [] (r_base g) fs"

subsection \<open>ExportsGenerators\<close>

text \<open>
  The vector of \<^verbatim>\<open>ExportsGenerator*\<close>: each element is one of the three
  subclasses, and a virtual call dispatches on which.
\<close>

datatype Generator =
    CppExports CppExportsGenerator
  | RExports RExportsGenerator
  | CppInclude CppIncludeGenerator

fun Generator_writeBegin :: "Generator \<Rightarrow> Generator" where
  "Generator_writeBegin (CppExports g) = CppExports (CppExportsGenerator_writeBegin g)"
| "Generator_writeBegin (RExports g) = RExports (RExportsGenerator_writeBegin g)"
| "Generator_writeBegin (CppInclude g) = CppInclude (CppIncludeGenerator_writeBegin g)"

fun Generator_writeFunctions ::
    "AttributesParser \<Rightarrow> SourceFileAttributes \<Rightarrow> Generator \<Rightarrow> Generator" where
  "Generator_writeFunctions P sa (CppExports g) =
     CppExports (CppExportsGenerator_writeFunctions P sa g)"
| "Generator_writeFunctions P sa (RExports g) =
     RExports (RExportsGenerator_writeFunctions P sa g)"
| "Generator_writeFunctions P sa (CppInclude g) =
     CppInclude (CppIncludeGenerator_writeFunctions P sa g)"

fun Generator_writeEnd :: "Generator \<Rightarrow> Generator" where
  "Generator_writeEnd (CppExports g) = CppExports (CppExportsGenerator_writeEnd g)"
| "Generator_writeEnd (RExports g) = RExports (RExportsGenerator_writeEnd g)"
| "Generator_writeEnd (CppInclude g) = CppInclude (CppIncludeGenerator_writeEnd g)"

fun Generator_commit ::
    "string list \<Rightarrow> string list \<Rightarrow> Generator \<Rightarrow> FileSystem \<Rightarrow> (error + bool) \<times> FileSystem" where
  "Generator_commit includes protos (CppExports g) fs =
     CppExportsGenerator_commit includes protos g fs"
| "Generator_commit includes protos (RExports g) fs =
     RExportsGenerator_commit includes protos g fs"
| "Generator_commit includes protos (CppInclude g) fs =
     CppIncludeGenerator_commit includes protos g fs"

definition ExportsGenerators_writeBegin :: "Generator list \<Rightarrow> Generator list" where
  "ExportsGenerators_writeBegin generators = map Generator_writeBegin generators"

definition ExportsGenerators_writeFunctions ::
    "AttributesParser \<Rightarrow> SourceFileAttributes \<Rightarrow> Generator list \<Rightarrow> Generator list" where
  "ExportsGenerators_writeFunctions P sa generators =
     map (Generator_writeFunctions P sa) generators"

definition ExportsGenerators_writeEnd :: "Generator list \<Rightarrow> Generator list" where
  "ExportsGenerators_writeEnd generators = map Generator_writeEnd generators"

text \<open>The loop of \<^verbatim>\<open>ExportsGenerators::commit\<close>, from the value of \<^verbatim>\<open>wrote\<close> so far.\<close>

fun commit_loop ::
    "string list \<Rightarrow> string list \<Rightarrow> Generator list \<Rightarrow> bool \<Rightarrow> FileSystem
       \<Rightarrow> (error + bool) \<times> FileSystem" where
  "commit_loop includes protos [] wrote fs = (Inr wrote, fs)"
| "commit_loop includes protos (g # gs) wrote fs =
     (case Generator_commit includes protos g fs of
        (Inl e, fs') \<Rightarrow> (Inl e, fs')
      | (Inr b, fs') \<Rightarrow> commit_loop includes protos gs (if b then True else wrote) fs')"

definition ExportsGenerators_commit ::
    "string list \<Rightarrow> string list \<Rightarrow> Generator list \<Rightarrow> FileSystem
       \<Rightarrow> (error + bool) \<times> FileSystem" where
  "ExportsGenerators_commit includes protos generators fs =
     commit_loop includes protos generators False fs"

subsection \<open>compileAttributes\<close>

text \<open>
  Modelled from the spec: \<^verbatim>\<open>SourceFileAttributes::empty\<close> is declared in the
  absent header; the spec has the entry point "skip files with none".
\<close>

definition attributes_empty :: "SourceFileAttributes \<Rightarrow> bool" where
  "attributes_empty sa = (attributes sa = [])"

text \<open>
  The loop over \<^verbatim>\<open>cppFiles\<close>, from the generators and the prototypes so far.
  Every file is parsed before anything is committed, so the parser sees the
  disk as it was at the call.
\<close>

fun files_loop ::
    "AttributesParser \<Rightarrow> FileSystem \<Rightarrow> string list \<Rightarrow> Generator list \<times> string list
       \<Rightarrow> Generator list \<times> string list" where
  "files_loop P fs [] acc = acc"
| "files_loop P fs (cppFile # rest) acc =
     (let sa = parseSourceFile P fs cppFile
      in if attributes_empty sa then files_loop P fs rest acc
         else files_loop P fs rest
                (ExportsGenerators_writeFunctions P sa (fst acc), snd acc @ prototypes sa))"

definition compileAttributes ::
    "AttributesParser \<Rightarrow> string \<Rightarrow> string \<Rightarrow> string list \<Rightarrow> string list \<Rightarrow> string list
       \<Rightarrow> bool \<Rightarrow> Platform \<Rightarrow> FileSystem \<Rightarrow> (error + bool) \<times> FileSystem" where
  "compileAttributes P packageDir packageName cppFiles cppFileBasenames includes verbose
       platform fs =
     (let sep = file_sep platform in
      case CppExportsGenerator_new packageDir sep fs of
        Inl e \<Rightarrow> (Inl e, fs)
      | Inr g1 \<Rightarrow>
     (case RExportsGenerator_new packageDir sep fs of
        Inl e \<Rightarrow> (Inl e, fs)
      | Inr g2 \<Rightarrow>
     (case CppIncludeGenerator_new packageDir sep packageName fs of
        Inl e \<Rightarrow> (Inl e, fs)
      | Inr g3 \<Rightarrow>
          let generators = [CppExports g1, RExports g2, CppInclude g3];
              begun = ExportsGenerators_writeBegin generators;
              written = files_loop P fs cppFiles (begun, []);
              ended = ExportsGenerators_writeEnd (fst written)
          in ExportsGenerators_commit includes (snd written) ended fs)))"


subsection \<open>Concrete inputs for the examples\<close>

text \<open>
  A disk with nothing on it on which every system call succeeds, a platform,
  and a parser that finds one exported function \<^verbatim>\<open>int f()\<close>, with the R
  interface, in every file that exists.
\<close>

definition empty_disk :: FileSystem where
  "empty_disk =
     \<lparr>files = Map.empty, dirs = {}, st_mtime = (\<lambda>p. 0), clock = 0,
      stat_errno = (\<lambda>p. None), ifstream_fails = (\<lambda>p. False),
      ofstream_fails = (\<lambda>p. False)\<rparr>"

definition example_platform :: Platform where
  "example_platform = \<lparr>file_sep = ''/'', dynlib_ext = ''.so''\<rparr>"

definition example_parser :: AttributesParser where
  "example_parser =
     \<lparr>kExportAttribute = ''export'', kDependsAttribute = ''depends'',
      kInterfaceCpp = ''cpp'', kInterfaceR = ''r'',
      parseSourceFile = (\<lambda>fs p.
        \<lparr>sourceFile = p,
         attributes =
           (if files fs p = None then []
            else [\<lparr>attribute_name = ''export'', attribute_params = [],
                   attribute_function =
                     \<lparr>function_type = ''int'', function_name = ''f'',
                      function_arguments = []\<rparr>,
                   attribute_roxygen = []\<rparr>]),
         prototypes = (if files fs p = None then [] else [''int f()'']),
         interfaces = [''r'']\<rparr>),
      printFunction = (\<lambda>f.
        function_type f @ '' '' @ function_name f @ ''(''
        @ separated '', '' (map (\<lambda>a. argument_type a @ '' '' @ argument_name a)
                              (function_arguments f))
        @ '')'')\<rparr>"


definition example_session :: "string \<Rightarrow> int \<Rightarrow> RSession" where
  "example_session dir n =
     \<lparr>basename = (\<lambda>p. rev (takeWhile (\<lambda>c. c \<noteq> CHR ''/'') (rev p))),
      tempfile = dir, sample = n\<rparr>"

text \<open>A disk with one source file, last modified at time 5, and the clock at 10.\<close>

definition source_disk :: FileSystem where
  "source_disk =
     empty_disk\<lparr>files := [''a.cpp'' \<mapsto> ''int f() { return 1; }''],
                 st_mtime := (\<lambda>p. 0)(''a.cpp'' := 5), clock := 10\<rparr>"

text \<open>The first \<^verbatim>\<open>sourceCppContext\<close> of a session, for that file.\<close>

definition first_call :: "(error + Context) \<times> SourceCppDynlibCache \<times> FileSystem" where
  "first_call =
     sourceCppContext example_parser (example_session ''/tmp/sourcecpp_1'' 42) ''a.cpp'' None
       example_platform [] source_disk"

text \<open>The disk after that call, once the caller has compiled the dynamic library.\<close>

definition built_disk :: FileSystem where
  "built_disk = write_file ''/tmp/sourcecpp_1/sourceCpp_42.so'' ''ELF'' (snd (snd first_call))"

text \<open>A package with one source file and no generated file.\<close>

definition package_disk :: FileSystem where
  "package_disk = empty_disk\<lparr>files := [''pkg/src/a.cpp'' \<mapsto> ''int f() { return 1; }'']\<rparr>"

text \<open>
  The same package with the manifest and the wrapper script as
  \<^verbatim>\<open>compileAttributes\<close> generates them for it, and a forwarding header left from
  an earlier run.
\<close>

definition synced_disk :: FileSystem where
  "synced_disk =
     empty_disk\<lparr>files :=
       [''pkg/src/a.cpp'' \<mapsto> ''int f() { return 1; }'',
        ''pkg/src/RcppExports.cpp'' \<mapsto>
           ''// This file was generated by Rcpp::compileAttributes'' @ endl
           @ ''// Generator token: 10BE3573-1514-4C36-9D1C-5A225CD40393'' @ endl @ endl
           @ ''int f();'' @ endl @ endl
           @ ''RCPP_MODULE(RcppExports) {'' @ endl
           @ ''    Rcpp::function('' @ dquote @ ''f'' @ dquote @ '', &f);'' @ endl
           @ ''}'' @ endl,
        ''pkg/R/RcppExports.R'' \<mapsto>
           ''# This file was generated by Rcpp::compileAttributes'' @ endl
           @ ''# Generator token: 10BE3573-1514-4C36-9D1C-5A225CD40393'' @ endl @ endl
           @ ''Rcpp::loadModule('' @ dquote @ ''RcppExports'' @ dquote @ '', what = c(''
           @ dquote @ ''f'' @ dquote @ ''))'' @ endl,
        ''pkg/inst/include/p.hpp'' \<mapsto>
           ''// This file was generated by Rcpp::compileAttributes'' @ endl
           @ ''// Generator token: 10BE3573-1514-4C36-9D1C-5A225CD40393'' @ endl @ endl
           @ ''namespace p {'' @ endl @ ''}'' @ endl]\<rparr>"

text \<open>
  A parser that finds, in every file that exists, a single attribute that is
  not an export, and the C++ interface declared; and a package whose three
  generated files are what \<^verbatim>\<open>compileAttributes\<close> generates for it with that
  parser.
\<close>

definition interface_only_parser :: AttributesParser where
  "interface_only_parser =
     \<lparr>kExportAttribute = ''export'', kDependsAttribute = ''depends'',
      kInterfaceCpp = ''cpp'', kInterfaceR = ''r'',
      parseSourceFile = (\<lambda>fs p.
        \<lparr>sourceFile = p,
         attributes =
           (if files fs p = None then []
            else [\<lparr>attribute_name = ''interfaces'',
                   attribute_params = [\<lparr>param_name = ''cpp'', param_value = []\<rparr>],
                   attribute_function =
                     \<lparr>function_type = [], function_name = [], function_arguments = []\<rparr>,
                   attribute_roxygen = []\<rparr>]),
         prototypes = [],
         interfaces = [''cpp'']\<rparr>),
      printFunction = (\<lambda>f. function_type f @ '' '' @ function_name f @ ''()'')\<rparr>"

definition interface_only_disk :: FileSystem where
  "interface_only_disk =
     empty_disk\<lparr>files :=
       [''pkg/src/a.cpp'' \<mapsto> ''// [[Rcpp::interfaces(cpp)]]'',
        ''pkg/src/RcppExports.cpp'' \<mapsto>
           ''// This file was generated by Rcpp::compileAttributes'' @ endl
           @ ''// Generator token: 10BE3573-1514-4C36-9D1C-5A225CD40393'' @ endl @ endl
           @ ''RCPP_MODULE(RcppExports) {'' @ endl @ ''}'' @ endl,
        ''pkg/R/RcppExports.R'' \<mapsto>
           ''# This file was generated by Rcpp::compileAttributes'' @ endl
           @ ''# Generator token: 10BE3573-1514-4C36-9D1C-5A225CD40393'' @ endl @ endl
           @ ''Rcpp::loadModule('' @ dquote @ ''RcppExports'' @ dquote
           @ '', what = character())'',
        ''pkg/inst/include/p.hpp'' \<mapsto>
           ''// This file was generated by Rcpp::compileAttributes'' @ endl
           @ ''// Generator token: 10BE3573-1514-4C36-9D1C-5A225CD40393'' @ endl @ endl
           @ ''namespace p {'' @ endl @ ''}'' @ endl],
       dirs := {''pkg/inst/include''}\<rparr>"

subsection \<open>Notions the statements use\<close>

text \<open>What \<^verbatim>\<open>FileInfo(p).lastModified()\<close> returns when \<^verbatim>\<open>stat\<close> does not fail.\<close>

definition lastModified :: "FileSystem \<Rightarrow> string \<Rightarrow> int" where
  "lastModified fs p = (if path_exists fs p then st_mtime fs p else 0)"

text \<open>Touching a path: its modification time becomes \<open>t\<close>, nothing else changes.\<close>

definition touch :: "string \<Rightarrow> int \<Rightarrow> FileSystem \<Rightarrow> FileSystem" where
  "touch p t fs = fs\<lparr>st_mtime := (st_mtime fs)(p := t)\<rparr>"

text \<open>The unit \<^verbatim>\<open>sourceCppContext\<close> finds in the cache for its arguments.\<close>

definition cached_dynlib ::
    "string \<Rightarrow> string option \<Rightarrow> SourceCppDynlibCache \<Rightarrow> SourceCppDynlib" where
  "cached_dynlib file sCode cache =
     (let code = (case sCode of None \<Rightarrow> [] | Some c \<Rightarrow> c)
      in if code \<noteq> [] then lookupByCode code cache else lookupByFile file cache)"

text \<open>
  Every unit in the cache was constructed from a source path: none is the
  empty unit.  The cache starts empty and \<^verbatim>\<open>sourceCppContext\<close> inserts only
  units it has constructed.
\<close>

definition cache_valid :: "SourceCppDynlibCache \<Rightarrow> bool" where
  "cache_valid cache = (\<forall>e \<in> set cache. \<not> isEmpty (entry_dynlib e))"

text \<open>The three target files of \<^verbatim>\<open>compileAttributes\<close>, as the constructors build them.\<close>

definition manifest_path :: "string \<Rightarrow> string \<Rightarrow> string" where
  "manifest_path packageDir sep = packageDir @ sep @ ''src'' @ sep @ ''RcppExports.cpp''"

definition wrapper_path :: "string \<Rightarrow> string \<Rightarrow> string" where
  "wrapper_path packageDir sep = packageDir @ sep @ ''R'' @ sep @ ''RcppExports.R''"

definition header_path :: "string \<Rightarrow> string \<Rightarrow> string \<Rightarrow> string" where
  "header_path packageDir sep packageName =
     packageDir @ sep @ ''inst'' @ sep @ ''include'' @ sep @ packageName @ ''.hpp''"

subsection \<open>Notions the proofs use\<close>

text \<open>Reading a decimal numeral back.\<close>

definition digit_value :: "char \<Rightarrow> nat" where
  "digit_value c = of_char c - 48"

definition decimal_value :: "string \<Rightarrow> nat" where
  "decimal_value s = foldl (\<lambda>a c. 10 * a + digit_value c) 0 s"

text \<open>
  What the loop over \<^verbatim>\<open>cppFiles\<close> does to one generator, or to the prototypes:
  \<open>f\<close> is applied for each file that has attributes.
\<close>

fun apply_files ::
    "(SourceFileAttributes \<Rightarrow> 'g \<Rightarrow> 'g) \<Rightarrow> AttributesParser \<Rightarrow> FileSystem \<Rightarrow> string list
       \<Rightarrow> 'g \<Rightarrow> 'g" where
  "apply_files f P fs [] g = g"
| "apply_files f P fs (cppFile # rest) g =
     (let sa = parseSourceFile P fs cppFile
      in if attributes_empty sa then apply_files f P fs rest g
         else apply_files f P fs rest (f sa g))"

text \<open>Each generator after the three writing phases, and the prototypes collected.\<close>

definition written_cpp ::
    "AttributesParser \<Rightarrow> FileSystem \<Rightarrow> string list \<Rightarrow> CppExportsGenerator
       \<Rightarrow> CppExportsGenerator" where
  "written_cpp P fs cppFiles g =
     CppExportsGenerator_writeEnd
       (apply_files (CppExportsGenerator_writeFunctions P) P fs cppFiles
          (CppExportsGenerator_writeBegin g))"

definition written_r ::
    "AttributesParser \<Rightarrow> FileSystem \<Rightarrow> string list \<Rightarrow> RExportsGenerator
       \<Rightarrow> RExportsGenerator" where
  "written_r P fs cppFiles g =
     RExportsGenerator_writeEnd
       (apply_files (RExportsGenerator_writeFunctions P) P fs cppFiles
          (RExportsGenerator_writeBegin g))"

definition written_inc ::
    "AttributesParser \<Rightarrow> FileSystem \<Rightarrow> string list \<Rightarrow> CppIncludeGenerator
       \<Rightarrow> CppIncludeGenerator" where
  "written_inc P fs cppFiles g =
     CppIncludeGenerator_writeEnd
       (apply_files (CppIncludeGenerator_writeFunctions P) P fs cppFiles
          (CppIncludeGenerator_writeBegin g))"

definition collected_prototypes ::
    "AttributesParser \<Rightarrow> FileSystem \<Rightarrow> string list \<Rightarrow> string list" where
  "collected_prototypes P fs cppFiles =
     apply_files (\<lambda>sa pr. pr @ prototypes sa) P fs cppFiles []"


section \<open>Theorems\<close>

text \<open>
  C8.  An attribute counts as an exported function exactly when its name is
  the export attribute's and its function is not empty; its exported name is
  the name of its first parameter when it has parameters, and the name of its
  function otherwise.
\<close>

theorem C8_export_filter:
  "(isExportedFunction P a \<longleftrightarrow>
      attribute_name a = kExportAttribute P \<and> \<not> function_empty (attribute_function a))
   \<and> exportedName (a\<lparr>attribute_params := p # ps\<rparr>) = param_name p
   \<and> exportedName (a\<lparr>attribute_params := []\<rparr>) = function_name (attribute_function a)"
  by (simp add: isExportedFunction_def exportedName_def)

subsection \<open>The generator token and the safe-overwrite guard\<close>

lemma string_find_None_iff: "string_find s t = None \<longleftrightarrow> \<not> sublist t s"
  by (induction s) (auto simp: sublist_Cons_right)

lemma ExportsGenerator_new_unsafe:
  assumes "files fs p = Some c" and "c \<noteq> []" and "\<not> sublist generatorToken c"
    and "stat_errno fs p = None" and "\<not> ifstream_fails fs p"
  shows "ExportsGenerator_new p pfx fs = Inl (file_exists p)"
  using assms
  by (simp add: ExportsGenerator_new_def FileInfo_new_def path_exists_def read_file_def
      isSafeToOverwrite_def string_find_None_iff)

lemma ExportsGenerator_new_existing:
  "ExportsGenerator_new t pfx fs = Inr g \<Longrightarrow> existingCode g = read_file fs t"
  by (auto simp: ExportsGenerator_new_def FileInfo_new_def path_exists_def read_file_def Let_def
      split: option.splits if_splits)

lemma compileAttributes_constructor_fails:
  assumes "CppExportsGenerator_new pd (file_sep plat) fs = Inl e1
     \<or> RExportsGenerator_new pd (file_sep plat) fs = Inl e2
     \<or> CppIncludeGenerator_new pd (file_sep plat) pn fs = Inl e3"
  shows "\<exists>e. compileAttributes P pd pn cf bn incs v plat fs = (Inl e, fs)"
  using assms by (auto simp: compileAttributes_def Let_def split: sum.splits)

text \<open>
  C2, as the claim states it, fails: a target file that exists, is empty and
  so does not contain the generator token is accepted by the constructor.
\<close>

theorem C2_empty_target_counterexample:
  "files (empty_disk\<lparr>files := [''pkg/src/RcppExports.cpp'' \<mapsto> []]\<rparr>) ''pkg/src/RcppExports.cpp''
     = Some []
   \<and> \<not> sublist generatorToken []
   \<and> ExportsGenerator_new ''pkg/src/RcppExports.cpp'' ''//''
        (empty_disk\<lparr>files := [''pkg/src/RcppExports.cpp'' \<mapsto> []]\<rparr>)
     = Inr \<lparr>targetFile = ''pkg/src/RcppExports.cpp'', commentPrefix = ''//'',
            existingCode = [], codeStream = []\<rparr>"
  by (simp add: ExportsGenerator_new_def FileInfo_new_def path_exists_def read_file_def
      isSafeToOverwrite_def empty_disk_def generatorToken_def)

text \<open>
  C2, amended.  For every target file that exists, can be read, is not empty
  and does not contain the generator token, the constructor of a generator over
  it throws \<^verbatim>\<open>file_exists\<close>; and when the file is one of the three targets of
  \<^verbatim>\<open>compileAttributes\<close>, the call fails and leaves the disk as it was.
\<close>

theorem C2_unsafe_overwrite_refused:
  assumes "files fs p = Some c" and "c \<noteq> []" and "\<not> sublist generatorToken c"
    and "stat_errno fs p = None" and "\<not> ifstream_fails fs p"
  shows "ExportsGenerator_new p pfx fs = Inl (file_exists p) \<and>
     (p \<in> {manifest_path pd (file_sep plat), wrapper_path pd (file_sep plat),
           header_path pd (file_sep plat) pn}
      \<longrightarrow> (\<exists>e. compileAttributes P pd pn cf bn incs v plat fs = (Inl e, fs)))"
proof
  show "ExportsGenerator_new p pfx fs = Inl (file_exists p)"
    using assms by (rule ExportsGenerator_new_unsafe)
next
  show "p \<in> {manifest_path pd (file_sep plat), wrapper_path pd (file_sep plat),
           header_path pd (file_sep plat) pn}
      \<longrightarrow> (\<exists>e. compileAttributes P pd pn cf bn incs v plat fs = (Inl e, fs))"
  proof
    assume "p \<in> {manifest_path pd (file_sep plat), wrapper_path pd (file_sep plat),
           header_path pd (file_sep plat) pn}"
    then have "CppExportsGenerator_new pd (file_sep plat) fs = Inl (file_exists p)
       \<or> RExportsGenerator_new pd (file_sep plat) fs = Inl (file_exists p)
       \<or> CppIncludeGenerator_new pd (file_sep plat) pn fs = Inl (file_exists p)"
      using ExportsGenerator_new_unsafe [OF assms]
      by (auto simp: CppExportsGenerator_new_def RExportsGenerator_new_def
          CppIncludeGenerator_new_def manifest_path_def wrapper_path_def header_path_def)
    then show "\<exists>e. compileAttributes P pd pn cf bn incs v plat fs = (Inl e, fs)"
      by (rule compileAttributes_constructor_fails)
  qed
qed

theorem C2_unsafe_overwrite_refused_witness:
  "ExportsGenerator_new ''pkg/R/RcppExports.R'' ''#''
     (empty_disk\<lparr>files := [''pkg/R/RcppExports.R'' \<mapsto> ''x <- 1'']\<rparr>)
   = Inl (file_exists ''pkg/R/RcppExports.R'')
   \<and> (\<exists>e. compileAttributes example_parser ''pkg'' ''p'' [] [] [] False example_platform
             (empty_disk\<lparr>files := [''pkg/R/RcppExports.R'' \<mapsto> ''x <- 1'']\<rparr>)
           = (Inl e, empty_disk\<lparr>files := [''pkg/R/RcppExports.R'' \<mapsto> ''x <- 1'']\<rparr>))"
  using C2_unsafe_overwrite_refused
    [of "empty_disk\<lparr>files := [''pkg/R/RcppExports.R'' \<mapsto> ''x <- 1'']\<rparr>"
        "''pkg/R/RcppExports.R''" "''x <- 1''" "''#''" "''pkg''" example_platform "''p''"
        example_parser "[]" "[]" "[]" False]
  by (simp add: empty_disk_def example_platform_def generatorToken_def sublist_code
      wrapper_path_def)

text \<open>
  C9.  Over a target file that exists and is empty the constructor succeeds,
  although the file does not contain the generator token; the file is not
  protected: a commit of any body then overwrites it.
\<close>

theorem C9_empty_file_accepted:
  assumes "files fs p = Some []" and "stat_errno fs p = None" and "\<not> ifstream_fails fs p"
  shows "path_exists fs p \<and> \<not> sublist generatorToken (read_file fs p)
     \<and> ExportsGenerator_new p pfx fs =
         Inr \<lparr>targetFile = p, commentPrefix = pfx, existingCode = [], codeStream = []\<rparr>
     \<and> (\<not> ofstream_fails fs p \<longrightarrow>
          ExportsGenerator_commit pre
            \<lparr>targetFile = p, commentPrefix = pfx, existingCode = [], codeStream = body\<rparr> fs
          = (Inr True,
             write_file p
               (headerStream \<lparr>targetFile = p, commentPrefix = pfx, existingCode = [],
                              codeStream = body\<rparr> pre @ body) fs))"
  using assms
  by (simp add: ExportsGenerator_new_def FileInfo_new_def path_exists_def read_file_def
      isSafeToOverwrite_def generatorToken_def ExportsGenerator_commit_def Let_def
      headerStream_def)

theorem C9_empty_file_accepted_witness:
  "ExportsGenerator_new ''pkg/inst/include/p.hpp'' ''//''
     (empty_disk\<lparr>files := [''pkg/inst/include/p.hpp'' \<mapsto> []]\<rparr>)
   = Inr \<lparr>targetFile = ''pkg/inst/include/p.hpp'', commentPrefix = ''//'',
          existingCode = [], codeStream = []\<rparr>
   \<and> fst (ExportsGenerator_commit []
            \<lparr>targetFile = ''pkg/inst/include/p.hpp'', commentPrefix = ''//'',
             existingCode = [], codeStream = ''}''\<rparr>
            (empty_disk\<lparr>files := [''pkg/inst/include/p.hpp'' \<mapsto> []]\<rparr>)) = Inr True"
  using C9_empty_file_accepted
    [of "empty_disk\<lparr>files := [''pkg/inst/include/p.hpp'' \<mapsto> []]\<rparr>"
        "''pkg/inst/include/p.hpp''" "''//''" "[]" "''}''"]
  by (simp add: empty_disk_def)

subsection \<open>Commit\<close>

text \<open>
  C3.  \<^verbatim>\<open>ExportsGenerator::commit\<close>, the commit of the generators.  When the
  accumulated body is empty and the target does not exist, it returns false
  and leaves the disk as it was.  In every other case it returns false and
  leaves the disk as it was when header and body are the existing content,
  byte for byte; it writes header and body to the target and returns true when
  they differ; and whenever it returns, it returns true exactly when they
  differ.  The existing content is what the constructor read.  The manifest
  and the wrapper-script generator commit this way always, and the generator
  of the forwarding header does once it has made its directory, when a file
  with the C++ interface was seen (what it does otherwise is the subject of
  C1).
\<close>

theorem C3_commit_writes_on_difference:
  "(codeStream g = [] \<and> stat_errno fs (targetFile g) = None \<and> \<not> path_exists fs (targetFile g)
      \<longrightarrow> ExportsGenerator_commit pre g fs = (Inr False, fs))
   \<and> (codeStream g \<noteq> [] \<or> (stat_errno fs (targetFile g) = None \<and> path_exists fs (targetFile g))
      \<longrightarrow> (headerStream g pre @ codeStream g = existingCode g
             \<longrightarrow> ExportsGenerator_commit pre g fs = (Inr False, fs))
        \<and> (headerStream g pre @ codeStream g \<noteq> existingCode g
             \<and> \<not> ofstream_fails fs (targetFile g)
             \<longrightarrow> ExportsGenerator_commit pre g fs =
                  (Inr True,
                   write_file (targetFile g) (headerStream g pre @ codeStream g) fs))
        \<and> (\<forall>b fs'. ExportsGenerator_commit pre g fs = (Inr b, fs')
             \<longrightarrow> (b \<longleftrightarrow> headerStream g pre @ codeStream g \<noteq> existingCode g)))
   \<and> (\<forall>t pfx fs0. ExportsGenerator_new t pfx fs0 = Inr g \<longrightarrow> existingCode g = read_file fs0 t)
   \<and> CppExportsGenerator_commit incs protos c fs =
       ExportsGenerator_commit (includesPreamble incs @ prototypesPreamble protos) (cpp_base c) fs
   \<and> RExportsGenerator_commit incs protos r fs = ExportsGenerator_commit [] (r_base r) fs
   \<and> (hasCppInterface i \<and> stat_errno fs (includeDir i) = None
      \<longrightarrow> CppIncludeGenerator_commit incs protos i fs =
           ExportsGenerator_commit (includesPreamble incs) (inc_base i)
             (if path_exists fs (includeDir i) then fs else dir_create (includeDir i) fs))"
proof -
  have "hasCppInterface i \<and> stat_errno fs (includeDir i) = None
      \<longrightarrow> CppIncludeGenerator_commit incs protos i fs =
           ExportsGenerator_commit (includesPreamble incs) (inc_base i)
             (if path_exists fs (includeDir i) then fs else dir_create (includeDir i) fs)"
    by (simp add: CppIncludeGenerator_commit_def createDirectory_def FileInfo_new_def)
  then show ?thesis
    by (auto simp: ExportsGenerator_commit_def FileInfo_new_def Let_def
        ExportsGenerator_new_existing CppExportsGenerator_commit_def RExportsGenerator_commit_def)
qed

theorem C3_commit_writes_on_difference_witness:
  "ExportsGenerator_commit []
      \<lparr>targetFile = ''pkg/R/RcppExports.R'', commentPrefix = ''#'', existingCode = [],
       codeStream = []\<rparr>
      empty_disk
     = (Inr False, empty_disk)
   \<and> ExportsGenerator_commit []
      \<lparr>targetFile = ''pkg/R/RcppExports.R'', commentPrefix = ''#'',
       existingCode = ''# This file was generated by Rcpp::compileAttributes'' @ endl
           @ ''# Generator token: 10BE3573-1514-4C36-9D1C-5A225CD40393'' @ endl @ endl @ ''x'',
       codeStream = ''x''\<rparr>
      empty_disk
     = (Inr False, empty_disk)
   \<and> ExportsGenerator_commit []
      \<lparr>targetFile = ''pkg/R/RcppExports.R'', commentPrefix = ''#'', existingCode = [],
       codeStream = ''x''\<rparr>
      empty_disk
     = (Inr True,
        write_file ''pkg/R/RcppExports.R''
          (''# This file was generated by Rcpp::compileAttributes'' @ endl
           @ ''# Generator token: 10BE3573-1514-4C36-9D1C-5A225CD40393'' @ endl @ endl @ ''x'')
          empty_disk)
   \<and> CppIncludeGenerator_commit [] []
      \<lparr>inc_base = \<lparr>targetFile = ''pkg/inst/include/p.hpp'', commentPrefix = ''//'',
                   existingCode = [], codeStream = ''x''\<rparr>,
       scope = ''p'', includeDir = ''pkg/inst/include'', hasCppInterface = True\<rparr>
      empty_disk
     = (Inr True,
        write_file ''pkg/inst/include/p.hpp''
          (''// This file was generated by Rcpp::compileAttributes'' @ endl
           @ ''// Generator token: 10BE3573-1514-4C36-9D1C-5A225CD40393'' @ endl @ endl @ ''x'')
          (dir_create ''pkg/inst/include'' empty_disk))"
proof -
  let ?g0 = "\<lparr>targetFile = ''pkg/R/RcppExports.R'', commentPrefix = ''#'', existingCode = [],
              codeStream = []\<rparr>"
  let ?g1 = "\<lparr>targetFile = ''pkg/R/RcppExports.R'', commentPrefix = ''#'',
              existingCode = ''# This file was generated by Rcpp::compileAttributes'' @ endl
                @ ''# Generator token: 10BE3573-1514-4C36-9D1C-5A225CD40393'' @ endl @ endl @ ''x'',
              codeStream = ''x''\<rparr>"
  let ?g2 = "\<lparr>targetFile = ''pkg/R/RcppExports.R'', commentPrefix = ''#'', existingCode = [],
              codeStream = ''x''\<rparr>"
  let ?b = "\<lparr>targetFile = ''pkg/inst/include/p.hpp'', commentPrefix = ''//'',
             existingCode = [], codeStream = ''x''\<rparr>"
  let ?i = "\<lparr>inc_base = ?b, scope = ''p'', includeDir = ''pkg/inst/include'',
             hasCppInterface = True\<rparr>"
  from C3_commit_writes_on_difference [of ?g0 empty_disk "[]"]
    C3_commit_writes_on_difference [of ?g1 empty_disk "[]"]
    C3_commit_writes_on_difference [of ?g2 empty_disk "[]"]
    C3_commit_writes_on_difference [of ?b "dir_create ''pkg/inst/include'' empty_disk" "[]"]
    C3_commit_writes_on_difference [of _ empty_disk _ "[]" _ _ _ ?i]
  show ?thesis
    by (simp add: empty_disk_def path_exists_def headerStream_def generatorToken_def
        includesPreamble_def dir_create_def)
qed

text \<open>
  C10.  Two commits of the wrapper-script generator that differ only in the
  include lines and the prototypes they are given return the same value and
  leave the same disk: \<^verbatim>\<open>RExportsGenerator::commit\<close> reads neither argument.
\<close>

theorem C10_wrapper_commit_ignores_arguments:
  "RExportsGenerator_commit includes1 protos1 g fs
     = RExportsGenerator_commit includes2 protos2 g fs"
  by (simp add: RExportsGenerator_commit_def)

subsection \<open>File information\<close>

lemma FileInfo_new_ok:
  "stat_errno fs p = None \<Longrightarrow>
     FileInfo_new p fs =
       Inr \<lparr>fileinfo_path = p, fileinfo_exists = path_exists fs p,
            fileinfo_lastModified = lastModified fs p\<rparr>"
  by (simp add: FileInfo_new_def lastModified_def)

lemma FileInfo_new_Inr:
  "FileInfo_new p fs = Inr fi \<Longrightarrow>
     stat_errno fs p = None \<and> fileinfo_exists fi = path_exists fs p
     \<and> fileinfo_lastModified fi = lastModified fs p"
  by (auto simp: FileInfo_new_def lastModified_def split: option.splits if_splits)

subsection \<open>Printing an integer is injective\<close>

lemma below_ten:
  "(d::nat) < 10 \<Longrightarrow>
     d = 0 \<or> d = 1 \<or> d = 2 \<or> d = 3 \<or> d = 4 \<or> d = 5 \<or> d = 6 \<or> d = 7 \<or> d = 8 \<or> d = 9"
  by arith

lemma digit_value_digit_char: "d < 10 \<Longrightarrow> digit_value (digit_char d) = d"
  by (drule below_ten) (auto simp: digit_value_def digit_char_def)

lemma digit_char_not_minus: "d < 10 \<Longrightarrow> digit_char d \<noteq> CHR ''-''"
  by (drule below_ten) (auto simp: digit_char_def)

lemma decimal_value_decimal: "decimal_value (decimal n) = n"
proof (induction n rule: decimal.induct)
  case (1 n)
  show ?case
  proof (cases "n < 10")
    case True
    then show ?thesis
      by (subst decimal.simps) (simp add: decimal_value_def digit_value_digit_char)
  next
    case False
    with 1 have "decimal_value (decimal (n div 10)) = n div 10" by simp
    with False show ?thesis
      by (subst decimal.simps) (simp add: decimal_value_def digit_value_digit_char)
  qed
qed

lemma decimal_inj: "decimal m = decimal n \<Longrightarrow> m = n"
  by (metis decimal_value_decimal)

lemma decimal_no_minus: "CHR ''-'' \<notin> set (decimal n)"
proof (induction n rule: decimal.induct)
  case (1 n)
  show ?case
  proof (cases "n < 10")
    case True
    then have "digit_char n \<noteq> CHR ''-''" by (rule digit_char_not_minus)
    with True show ?thesis by (subst decimal.simps) auto
  next
    case False
    with 1 have "CHR ''-'' \<notin> set (decimal (n div 10))" by simp
    moreover have "digit_char (n mod 10) \<noteq> CHR ''-''" by (rule digit_char_not_minus) simp
    ultimately show ?thesis using False
      by (subst decimal.simps) auto
  qed
qed

lemma ostream_int_inj: "ostream_int i = ostream_int j \<longleftrightarrow> i = j"
proof
  assume eq: "ostream_int i = ostream_int j"
  have neg: "CHR ''-'' # decimal a \<noteq> decimal b" for a b
    using decimal_no_minus [of b] by (metis list.set_intros(1))
  show "i = j"
  proof (cases "i < 0")
    case True
    with eq neg have "j < 0" by (auto simp: ostream_int_def split: if_splits)
    with True eq have "nat (- i) = nat (- j)" by (auto simp: ostream_int_def dest: decimal_inj)
    with True \<open>j < 0\<close> show ?thesis by simp
  next
    case False
    with eq neg have "\<not> j < 0" by (auto simp: ostream_int_def split: if_splits) metis
    with False eq have "nat i = nat j" by (auto simp: ostream_int_def dest: decimal_inj)
    with False \<open>\<not> j < 0\<close> show ?thesis by simp
  qed
qed simp

subsection \<open>The module name\<close>

lemma regenerateSource_fields:
  "regenerateSource P u fs = (Inr u', fs') \<Longrightarrow>
     moduleName u' = moduleName u \<and> cppSourcePath u' = cppSourcePath u"
  by (auto simp: regenerateSource_def Let_def split: if_splits)

lemma regenerateSource_total:
  "\<not> ofstream_fails fs (generatedCppSourcePath u) \<Longrightarrow>
     \<exists>u' fs'. regenerateSource P u fs = (Inr u', fs')"
  by (auto simp: regenerateSource_def Let_def file_copy_def write_file_def split: option.splits)

lemma SourceCppDynlib_new_fields:
  "SourceCppDynlib_new P R path plat fs = (Inr u, fs') \<Longrightarrow>
     moduleName u = ''sourceCpp_'' @ ostream_int (sample R) \<and> cppSourcePath u = path"
  by (auto simp: SourceCppDynlib_new_def Let_def split: sum.splits if_splits
      dest!: regenerateSource_fields)

lemmas dynlib_eval =
  sourceCppContext_def SourceCppDynlib_new_def regenerateSource_def FileInfo_new_def
  path_exists_def file_copy_def write_file_def append_file_def read_file_def dir_create_def
  generateCppModule_def isExportedFunction_def exportedName_def function_empty_def
  example_parser_def example_platform_def example_session_def source_disk_def empty_disk_def
  make_context_def isEmpty_def SourceCppDynlib_default_def generatedCppSourcePath_def
  dynlibPath_def dynlibFilename_def insertFile_def insertCode_def isSourceDirty_def isBuilt_def
  ostream_int_def decimal.simps digit_char_def Let_def endl_def dquote_def

text \<open>
  C4, as the claim states it, fails: two units constructed one after the other
  from the same source file, each in a build directory of its own, share the
  module name when \<^verbatim>\<open>sample(100000, 1)\<close> draws the same number twice.
\<close>

theorem C4_same_draw_counterexample:
  "map_sum id moduleName
     (fst (SourceCppDynlib_new example_parser (example_session ''/tmp/sourcecpp_1'' 42)
             ''a.cpp'' example_platform source_disk))
     = Inr ''sourceCpp_42''
   \<and> map_sum id moduleName
     (fst (SourceCppDynlib_new example_parser (example_session ''/tmp/sourcecpp_2'' 42)
             ''a.cpp'' example_platform
             (snd (SourceCppDynlib_new example_parser (example_session ''/tmp/sourcecpp_1'' 42)
                     ''a.cpp'' example_platform source_disk))))
     = Inr ''sourceCpp_42''"
  by (simp add: dynlib_eval)

text \<open>
  C4, amended.  The module names of two units, whatever they are constructed
  from, are distinct exactly when their constructions drew different numbers:
  the name is \<^verbatim>\<open>sourceCpp_\<close> followed by the number drawn.  Each construction
  draws anew, and nothing keeps two draws apart.
\<close>

theorem C4_module_names_follow_draws:
  assumes "SourceCppDynlib_new P R1 path1 plat1 fs1 = (Inr u1, fs1')"
    and "SourceCppDynlib_new P R2 path2 plat2 fs2 = (Inr u2, fs2')"
  shows "moduleName u1 \<noteq> moduleName u2 \<longleftrightarrow> sample R1 \<noteq> sample R2"
  using SourceCppDynlib_new_fields [OF assms(1)] SourceCppDynlib_new_fields [OF assms(2)]
  by (simp add: ostream_int_inj)

theorem C4_module_names_follow_draws_witness:
  "\<not> isl (fst (SourceCppDynlib_new example_parser (example_session ''/tmp/sourcecpp_1'' 42)
                 ''a.cpp'' example_platform source_disk))
   \<and> \<not> isl (fst (SourceCppDynlib_new example_parser (example_session ''/tmp/sourcecpp_2'' 43)
                 ''a.cpp'' example_platform source_disk))
   \<and> moduleName (projr (fst (SourceCppDynlib_new example_parser
                                (example_session ''/tmp/sourcecpp_1'' 42)
                                ''a.cpp'' example_platform source_disk)))
     \<noteq> moduleName (projr (fst (SourceCppDynlib_new example_parser
                                  (example_session ''/tmp/sourcecpp_2'' 43)
                                  ''a.cpp'' example_platform source_disk)))"
proof -
  let ?N1 = "SourceCppDynlib_new example_parser (example_session ''/tmp/sourcecpp_1'' 42)
               ''a.cpp'' example_platform source_disk"
  let ?N2 = "SourceCppDynlib_new example_parser (example_session ''/tmp/sourcecpp_2'' 43)
               ''a.cpp'' example_platform source_disk"
  have r1: "\<not> isl (fst ?N1)" and r2: "\<not> isl (fst ?N2)"
    by (simp_all add: dynlib_eval)
  then have e1: "?N1 = (Inr (projr (fst ?N1)), snd ?N1)"
    and e2: "?N2 = (Inr (projr (fst ?N2)), snd ?N2)"
    by (simp_all add: prod_eq_iff)
  from C4_module_names_follow_draws [OF e1 e2] r1 r2 show ?thesis
    by (simp add: example_session_def)
qed

subsection \<open>Staleness\<close>

lemma isSourceDirty_total:
  assumes "stat_errno fs (cppSourcePath u) = None"
    and "stat_errno fs (generatedCppSourcePath u) = None"
    and "stat_errno fs (dynlibPath u) = None"
  shows "isSourceDirty u fs =
     Inr (lastModified fs (cppSourcePath u) > lastModified fs (generatedCppSourcePath u)
          \<or> \<not> path_exists fs (dynlibPath u))"
  using assms by (simp add: isSourceDirty_def FileInfo_new_ok)

lemma isSourceDirty_returns:
  "isSourceDirty u fs = Inr b \<Longrightarrow>
     b \<longleftrightarrow> (lastModified fs (cppSourcePath u) > lastModified fs (generatedCppSourcePath u)
            \<or> \<not> path_exists fs (dynlibPath u))"
  by (auto simp: isSourceDirty_def split: sum.splits if_splits dest!: FileInfo_new_Inr)

lemma isSourceDirty_newer:
  assumes "stat_errno fs (cppSourcePath u) = None"
    and "stat_errno fs (generatedCppSourcePath u) = None"
    and "lastModified fs (cppSourcePath u) > lastModified fs (generatedCppSourcePath u)"
  shows "isSourceDirty u fs = Inr True"
  using assms by (simp add: isSourceDirty_def FileInfo_new_ok)

lemma sourceCppContext_hit:
  assumes "\<not> isEmpty (cached_dynlib file sCode cache)"
  shows "sourceCppContext P R file sCode plat cache fs =
     (case isSourceDirty (cached_dynlib file sCode cache) fs of
        Inl e \<Rightarrow> (Inl e, cache, fs)
      | Inr True \<Rightarrow>
          (case regenerateSource P (cached_dynlib file sCode cache) fs of
             (Inl e, fs') \<Rightarrow> (Inl e, cache, fs')
           | (Inr dynlib', fs') \<Rightarrow> (Inr (make_context dynlib' True), cache, fs'))
      | Inr False \<Rightarrow>
          (case isBuilt (cached_dynlib file sCode cache) fs of
             Inl e \<Rightarrow> (Inl e, cache, fs)
           | Inr built \<Rightarrow>
               (Inr (make_context (cached_dynlib file sCode cache) (\<not> built)), cache, fs)))"
  using assms unfolding sourceCppContext_def cached_dynlib_def Let_def by simp

lemma sourceCppContext_miss:
  assumes "isEmpty (cached_dynlib file sCode cache)"
  shows "sourceCppContext P R file sCode plat cache fs =
     (case SourceCppDynlib_new P R file plat fs of
        (Inl e, fs') \<Rightarrow> (Inl e, cache, fs')
      | (Inr dynlib', fs') \<Rightarrow>
          (Inr (make_context dynlib' True),
           (if (case sCode of None \<Rightarrow> [] | Some c \<Rightarrow> c) \<noteq> []
            then insertCode (case sCode of None \<Rightarrow> [] | Some c \<Rightarrow> c) dynlib' cache
            else insertFile file dynlib' cache),
           fs'))"
  using assms unfolding sourceCppContext_def cached_dynlib_def Let_def by simp

lemma first_call_cached:
  "\<not> isl (fst first_call)"
  "cached_dynlib ''a.cpp'' None (fst (snd first_call)) =
     \<lparr>cppSourcePath = ''a.cpp'', cppSourceLastModified = 5,
      generatedCpp = ''RCPP_MODULE(sourceCpp_42) {'' @ endl
        @ ''    Rcpp::function('' @ dquote @ ''f'' @ dquote @ '', &f);'' @ endl @ ''}'' @ endl,
      cppSourceFilename = ''a.cpp'', moduleName = ''sourceCpp_42'',
      buildDirectory = ''/tmp/sourcecpp_1'', fileSep = ''/'', dynlibExt = ''.so'',
      exportedFunctions = [''f''], depends = []\<rparr>"
  by (simp_all add: first_call_def cached_dynlib_def lastModified_def dynlib_eval)

text \<open>
  C6, as the claim states it, fails: for the unit of the first call, with the
  source last modified at time 5, the generated copy written at time 10 and
  the dynamic library built, touching the source file at time 10 updates its
  modification time, and the next \<^verbatim>\<open>sourceCppContext\<close> finds the unit not dirty
  and returns \<^verbatim>\<open>buildRequired\<close> false: the comparison of the two times is
  strict.
\<close>

theorem C6_touch_same_second_counterexample:
  "st_mtime built_disk ''a.cpp'' = 5
   \<and> st_mtime (touch ''a.cpp'' 10 built_disk) ''a.cpp'' = 10
   \<and> st_mtime (touch ''a.cpp'' 10 built_disk) ''/tmp/sourcecpp_1/a.cpp'' = 10
   \<and> isSourceDirty (cached_dynlib ''a.cpp'' None (fst (snd first_call)))
        (touch ''a.cpp'' 10 built_disk) = Inr False
   \<and> map_sum id context_buildRequired
       (fst (sourceCppContext example_parser (example_session ''/tmp/sourcecpp_2'' 43)
               ''a.cpp'' None example_platform (fst (snd first_call))
               (touch ''a.cpp'' 10 built_disk)))
     = Inr False"
  by (simp add: built_disk_def first_call_def touch_def cached_dynlib_def dynlib_eval)

text \<open>
  C6, amended.  \<^verbatim>\<open>isSourceDirty\<close> returns true exactly when the source file's
  modification time is strictly newer than the generated copy's or nothing
  exists at the path of the dynamic library: it returns that value when the
  three \<^verbatim>\<open>stat\<close> calls succeed, and whenever it returns, that is the value.
  Consequently, after the source file of a unit is touched, \<^verbatim>\<open>isSourceDirty\<close>
  is true exactly when the new modification time is strictly newer than the
  generated copy's or the library does not exist; and for a unit that is in the
  cache, a touch that gives the source a modification time strictly newer than
  the generated copy's makes \<^verbatim>\<open>isSourceDirty\<close> true, and the next
  \<^verbatim>\<open>sourceCppContext\<close> for it, when it returns, returns \<^verbatim>\<open>buildRequired\<close> true;
  it returns when the generated copy can be opened for writing.
\<close>

theorem C6_dirty_iff_newer_or_unbuilt:
  "(stat_errno fs (cppSourcePath u) = None \<and> stat_errno fs (generatedCppSourcePath u) = None
      \<and> stat_errno fs (dynlibPath u) = None
     \<longrightarrow> isSourceDirty u fs =
          Inr (lastModified fs (cppSourcePath u) > lastModified fs (generatedCppSourcePath u)
               \<or> \<not> path_exists fs (dynlibPath u)))
   \<and> (\<forall>b. isSourceDirty u fs = Inr b \<longrightarrow>
          (b \<longleftrightarrow> lastModified fs (cppSourcePath u) > lastModified fs (generatedCppSourcePath u)
               \<or> \<not> path_exists fs (dynlibPath u)))
   \<and> (cached_dynlib file sCode cache = u \<and> \<not> isEmpty u
      \<and> path_exists fs (cppSourcePath u) \<and> generatedCppSourcePath u \<noteq> cppSourcePath u
      \<and> stat_errno fs (cppSourcePath u) = None \<and> stat_errno fs (generatedCppSourcePath u) = None
      \<and> lastModified fs (generatedCppSourcePath u) < t
     \<longrightarrow> isSourceDirty u (touch (cppSourcePath u) t fs) = Inr True
       \<and> (\<forall>ctx s'. sourceCppContext P R file sCode plat cache (touch (cppSourcePath u) t fs)
                      = (Inr ctx, s')
             \<longrightarrow> context_buildRequired ctx)
       \<and> (\<not> ofstream_fails fs (generatedCppSourcePath u)
             \<longrightarrow> (\<exists>ctx s'. sourceCppContext P R file sCode plat cache
                               (touch (cppSourcePath u) t fs) = (Inr ctx, s'))))
   \<and> (path_exists fs (cppSourcePath u) \<and> generatedCppSourcePath u \<noteq> cppSourcePath u
      \<and> stat_errno fs (cppSourcePath u) = None \<and> stat_errno fs (generatedCppSourcePath u) = None
      \<and> stat_errno fs (dynlibPath u) = None
     \<longrightarrow> isSourceDirty u (touch (cppSourcePath u) t' fs) =
          Inr (lastModified fs (generatedCppSourcePath u) < t'
               \<or> \<not> path_exists fs (dynlibPath u)))"
proof (intro conjI impI allI)
  assume "stat_errno fs (cppSourcePath u) = None \<and> stat_errno fs (generatedCppSourcePath u) = None
      \<and> stat_errno fs (dynlibPath u) = None"
  then show "isSourceDirty u fs =
          Inr (lastModified fs (cppSourcePath u) > lastModified fs (generatedCppSourcePath u)
               \<or> \<not> path_exists fs (dynlibPath u))"
    by (simp add: isSourceDirty_total)
next
  fix b assume "isSourceDirty u fs = Inr b"
  then show "b \<longleftrightarrow> lastModified fs (cppSourcePath u) > lastModified fs (generatedCppSourcePath u)
               \<or> \<not> path_exists fs (dynlibPath u)"
    by (rule isSourceDirty_returns)
next
  assume h: "cached_dynlib file sCode cache = u \<and> \<not> isEmpty u
      \<and> path_exists fs (cppSourcePath u) \<and> generatedCppSourcePath u \<noteq> cppSourcePath u
      \<and> stat_errno fs (cppSourcePath u) = None \<and> stat_errno fs (generatedCppSourcePath u) = None
      \<and> lastModified fs (generatedCppSourcePath u) < t"
  let ?fs = "touch (cppSourcePath u) t fs"
  from h have dirty: "isSourceDirty u ?fs = Inr True"
    by (intro isSourceDirty_newer) (auto simp: touch_def lastModified_def path_exists_def)
  show "isSourceDirty u ?fs = Inr True" by (rule dirty)
  have ctx: "sourceCppContext P R file sCode plat cache ?fs =
     (case regenerateSource P u ?fs of
        (Inl e, fs') \<Rightarrow> (Inl e, cache, fs')
      | (Inr dynlib', fs') \<Rightarrow> (Inr (make_context dynlib' True), cache, fs'))"
    using h dirty by (simp add: sourceCppContext_hit)
  { fix ctx s' assume "sourceCppContext P R file sCode plat cache ?fs = (Inr ctx, s')"
    then show "context_buildRequired ctx"
      unfolding ctx by (auto simp: make_context_def split: prod.splits sum.splits) }
  { assume "\<not> ofstream_fails fs (generatedCppSourcePath u)"
    then have "\<not> ofstream_fails ?fs (generatedCppSourcePath u)" by (simp add: touch_def)
    from regenerateSource_total [OF this, of P]
    show "\<exists>ctx s'. sourceCppContext P R file sCode plat cache ?fs = (Inr ctx, s')"
      unfolding ctx by auto }
next
  assume h: "path_exists fs (cppSourcePath u) \<and> generatedCppSourcePath u \<noteq> cppSourcePath u
      \<and> stat_errno fs (cppSourcePath u) = None \<and> stat_errno fs (generatedCppSourcePath u) = None
      \<and> stat_errno fs (dynlibPath u) = None"
  let ?fs = "touch (cppSourcePath u) t' fs"
  from h have "isSourceDirty u ?fs =
      Inr (lastModified ?fs (cppSourcePath u) > lastModified ?fs (generatedCppSourcePath u)
           \<or> \<not> path_exists ?fs (dynlibPath u))"
    by (intro isSourceDirty_total) (simp_all add: touch_def)
  moreover from h have "lastModified ?fs (cppSourcePath u) = t'"
    and "lastModified ?fs (generatedCppSourcePath u) = lastModified fs (generatedCppSourcePath u)"
    and "path_exists ?fs (dynlibPath u) = path_exists fs (dynlibPath u)"
    by (simp_all add: touch_def lastModified_def path_exists_def)
  ultimately show "isSourceDirty u ?fs =
      Inr (lastModified fs (generatedCppSourcePath u) < t' \<or> \<not> path_exists fs (dynlibPath u))"
    by simp
qed

theorem C6_dirty_iff_newer_or_unbuilt_witness:
  "isSourceDirty (cached_dynlib ''a.cpp'' None (fst (snd first_call))) built_disk = Inr False
   \<and> isSourceDirty (cached_dynlib ''a.cpp'' None (fst (snd first_call)))
        (touch ''a.cpp'' 11 built_disk) = Inr True
   \<and> isSourceDirty (cached_dynlib ''a.cpp'' None (fst (snd first_call)))
        (touch ''a.cpp'' 10 built_disk) = Inr False
   \<and> (\<exists>ctx s'. sourceCppContext example_parser (example_session ''/tmp/sourcecpp_2'' 43)
                  ''a.cpp'' None example_platform (fst (snd first_call))
                  (touch ''a.cpp'' 11 built_disk) = (Inr ctx, s')
                \<and> context_buildRequired ctx)"
proof -
  let ?u = "cached_dynlib ''a.cpp'' None (fst (snd first_call))"
  have u: "cppSourcePath ?u = ''a.cpp''" "generatedCppSourcePath ?u = ''/tmp/sourcecpp_1/a.cpp''"
    "dynlibPath ?u = ''/tmp/sourcecpp_1/sourceCpp_42.so''" "\<not> isEmpty ?u"
    by (simp_all add: first_call_cached generatedCppSourcePath_def dynlibPath_def
        dynlibFilename_def isEmpty_def)
  have d: "stat_errno built_disk = (\<lambda>p. None)" "ofstream_fails built_disk = (\<lambda>p. False)"
    "path_exists built_disk ''a.cpp''" "path_exists built_disk ''/tmp/sourcecpp_1/a.cpp''"
    "path_exists built_disk ''/tmp/sourcecpp_1/sourceCpp_42.so''"
    "st_mtime built_disk ''a.cpp'' = 5" "st_mtime built_disk ''/tmp/sourcecpp_1/a.cpp'' = 10"
    by (simp_all add: built_disk_def first_call_def dynlib_eval)
  from C6_dirty_iff_newer_or_unbuilt
    [of built_disk ?u "''a.cpp''" None "fst (snd first_call)" 11 example_parser
        "example_session ''/tmp/sourcecpp_2'' 43" example_platform 10]
  show ?thesis
    by (simp add: u d lastModified_def) blast
qed

subsection \<open>The cache\<close>






text \<open>The calls keep the cache free of empty units.\<close>

lemma sourceCppContext_cache_valid:
  assumes "sourceCppContext P R file sCode plat cache0 fs0 = (r, cache1, fs1)"
    and "file \<noteq> []" and "cache_valid cache0"
  shows "cache_valid cache1"
proof (cases "isEmpty (cached_dynlib file sCode cache0)")
  case True
  show ?thesis
  proof (cases "SourceCppDynlib_new P R file plat fs0")
    case (Pair res fs')
    show ?thesis
    proof (cases res)
      case (Inl e)
      with Pair assms(1) have "cache1 = cache0"
        unfolding sourceCppContext_miss [OF True] by simp
      with assms(3) show ?thesis by simp
    next
      case (Inr d)
      with Pair have "cppSourcePath d = file" by (simp add: SourceCppDynlib_new_fields)
      with assms(2) have "\<not> isEmpty d" by (simp add: isEmpty_def)
      moreover from Inr Pair assms(1)
      have "cache1 = insertCode (case sCode of None \<Rightarrow> [] | Some c \<Rightarrow> c) d cache0
          \<or> cache1 = insertFile file d cache0"
        unfolding sourceCppContext_miss [OF True] by (simp split: if_splits)
      ultimately show ?thesis
        using assms(3) by (auto simp: cache_valid_def insertCode_def insertFile_def)
    qed
  qed
next
  case False
  from assms(1) have "cache1 = cache0"
    unfolding sourceCppContext_hit [OF False]
    by (auto split: sum.splits bool.splits prod.splits)
  with assms(3) show ?thesis by simp
qed




subsection \<open>The three generators through a call of compileAttributes\<close>

lemma files_loop_triple:
  "files_loop P fs cf ([CppExports a, RExports b, CppInclude c], pr) =
     ([CppExports (apply_files (CppExportsGenerator_writeFunctions P) P fs cf a),
       RExports (apply_files (RExportsGenerator_writeFunctions P) P fs cf b),
       CppInclude (apply_files (CppIncludeGenerator_writeFunctions P) P fs cf c)],
      apply_files (\<lambda>sa pr. pr @ prototypes sa) P fs cf pr)"
  by (induction cf arbitrary: a b c pr) (simp_all add: Let_def ExportsGenerators_writeFunctions_def)

lemma or3: "(if b3 then True else if b2 then True else if b1 then True else False) = (b1 \<or> b2 \<or> b3)"
  by auto

lemma compileAttributes_chain:
  "compileAttributes P pd pn cf bn incs v plat fs =
     (case CppExportsGenerator_new pd (file_sep plat) fs of
        Inl e \<Rightarrow> (Inl e, fs)
      | Inr g1 \<Rightarrow>
     (case RExportsGenerator_new pd (file_sep plat) fs of
        Inl e \<Rightarrow> (Inl e, fs)
      | Inr g2 \<Rightarrow>
     (case CppIncludeGenerator_new pd (file_sep plat) pn fs of
        Inl e \<Rightarrow> (Inl e, fs)
      | Inr g3 \<Rightarrow>
     (case CppExportsGenerator_commit incs (collected_prototypes P fs cf) (written_cpp P fs cf g1) fs of
        (Inl e, fsA) \<Rightarrow> (Inl e, fsA)
      | (Inr b1, fsA) \<Rightarrow>
     (case RExportsGenerator_commit incs (collected_prototypes P fs cf) (written_r P fs cf g2) fsA of
        (Inl e, fsB) \<Rightarrow> (Inl e, fsB)
      | (Inr b2, fsB) \<Rightarrow>
     (case CppIncludeGenerator_commit incs (collected_prototypes P fs cf) (written_inc P fs cf g3) fsB of
        (Inl e, fsC) \<Rightarrow> (Inl e, fsC)
      | (Inr b3, fsC) \<Rightarrow> (Inr (b1 \<or> b2 \<or> b3), fsC)))))))"
  unfolding compileAttributes_def Let_def ExportsGenerators_writeBegin_def ExportsGenerators_writeEnd_def
    ExportsGenerators_commit_def
  by (simp add: files_loop_triple written_cpp_def written_r_def written_inc_def collected_prototypes_def or3
      split: sum.splits prod.splits)

lemma targets_distinct:
  "manifest_path pd sep \<noteq> wrapper_path pd sep"
  "manifest_path pd sep \<noteq> header_path pd sep pn"
  "wrapper_path pd sep \<noteq> header_path pd sep pn"
  by (simp_all add: manifest_path_def wrapper_path_def header_path_def)

lemma ExportsGenerator_new_Inr:
  "ExportsGenerator_new t pfx fs = Inr g \<Longrightarrow>
     g = \<lparr>targetFile = t, commentPrefix = pfx, existingCode = read_file fs t, codeStream = []\<rparr>
     \<and> stat_errno fs t = None"
  by (auto simp: ExportsGenerator_new_def FileInfo_new_def path_exists_def read_file_def Let_def
      split: option.splits if_splits)

lemma apply_files_proj:
  assumes "\<And>sa g. q (f sa g) = q g"
  shows "q (apply_files f P fs cf g) = q g"
  by (induction cf arbitrary: g) (simp_all add: Let_def assms)

lemma written_cpp_base:
  "targetFile (cpp_base (written_cpp P fs cf g)) = targetFile (cpp_base g)"
  "commentPrefix (cpp_base (written_cpp P fs cf g)) = commentPrefix (cpp_base g)"
  "existingCode (cpp_base (written_cpp P fs cf g)) = existingCode (cpp_base g)"
  "codeStream (cpp_base (written_cpp P fs cf g)) \<noteq> []"
  by (simp_all add: written_cpp_def CppExportsGenerator_writeEnd_def CppExportsGenerator_writeBegin_def
      ostr_def endl_def
      apply_files_proj [where q = "\<lambda>g. targetFile (cpp_base g)"]
      apply_files_proj [where q = "\<lambda>g. commentPrefix (cpp_base g)"]
      apply_files_proj [where q = "\<lambda>g. existingCode (cpp_base g)"]
      CppExportsGenerator_writeFunctions_def)

lemma written_r_base:
  "targetFile (r_base (written_r P fs cf g)) = targetFile (r_base g)"
  "commentPrefix (r_base (written_r P fs cf g)) = commentPrefix (r_base g)"
  "existingCode (r_base (written_r P fs cf g)) = existingCode (r_base g)"
  "codeStream (r_base (written_r P fs cf g)) \<noteq> []"
  by (simp_all add: written_r_def RExportsGenerator_writeEnd_def RExportsGenerator_writeBegin_def
      ostr_def endl_def
      apply_files_proj [where q = "\<lambda>g. targetFile (r_base g)"]
      apply_files_proj [where q = "\<lambda>g. commentPrefix (r_base g)"]
      apply_files_proj [where q = "\<lambda>g. existingCode (r_base g)"]
      RExportsGenerator_writeFunctions_def)

lemma written_inc_base:
  "targetFile (inc_base (written_inc P fs cf g)) = targetFile (inc_base g)"
  "commentPrefix (inc_base (written_inc P fs cf g)) = commentPrefix (inc_base g)"
  "existingCode (inc_base (written_inc P fs cf g)) = existingCode (inc_base g)"
  "includeDir (written_inc P fs cf g) = includeDir g"
  "codeStream (inc_base (written_inc P fs cf g)) \<noteq> []"
  by (simp_all add: written_inc_def CppIncludeGenerator_writeEnd_def CppIncludeGenerator_writeBegin_def
      ostr_def endl_def
      apply_files_proj [where q = "\<lambda>g. targetFile (inc_base g)"]
      apply_files_proj [where q = "\<lambda>g. commentPrefix (inc_base g)"]
      apply_files_proj [where q = "\<lambda>g. existingCode (inc_base g)"]
      apply_files_proj [where q = "includeDir"]
      CppIncludeGenerator_writeFunctions_def)

lemma written_inc_hasCppInterface:
  "hasCppInterface (written_inc P fs cf g) \<longleftrightarrow>
     hasCppInterface g \<or>
     (\<exists>f \<in> set cf. \<not> attributes_empty (parseSourceFile P fs f)
                   \<and> hasInterface (parseSourceFile P fs f) (kInterfaceCpp P))"
proof -
  have "hasCppInterface (apply_files (CppIncludeGenerator_writeFunctions P) P fs cf h) \<longleftrightarrow>
     hasCppInterface h \<or>
     (\<exists>f \<in> set cf. \<not> attributes_empty (parseSourceFile P fs f)
                   \<and> hasInterface (parseSourceFile P fs f) (kInterfaceCpp P))" for h
    by (induction cf arbitrary: h) (auto simp: Let_def CppIncludeGenerator_writeFunctions_def)
  then show ?thesis
    by (simp add: written_inc_def CppIncludeGenerator_writeEnd_def CppIncludeGenerator_writeBegin_def)
qed

text \<open>The commit of a body that is not empty, which is what the three generators commit.\<close>

lemma commit_nonempty:
  "codeStream g \<noteq> [] \<Longrightarrow>
   ExportsGenerator_commit pre g fs =
     (if headerStream g pre @ codeStream g \<noteq> existingCode g
      then if ofstream_fails fs (targetFile g)
           then (Inl (file_io_error (targetFile g)), fs)
           else (Inr True, write_file (targetFile g) (headerStream g pre @ codeStream g) fs)
      else (Inr False, fs))"
  by (simp add: ExportsGenerator_commit_def Let_def)

lemma base_commit_effect:
  assumes "ExportsGenerator_commit pre g fs = (Inr b, fs')"
    and "codeStream g \<noteq> []" and "existingCode g = read_file fs (targetFile g)"
  shows "b \<longleftrightarrow> files fs' (targetFile g) \<noteq> None \<and> files fs' (targetFile g) \<noteq> files fs (targetFile g)"
    and "\<And>p. p \<noteq> targetFile g \<Longrightarrow> files fs' p = files fs p"
    and "read_file fs' (targetFile g) = headerStream g pre @ codeStream g"
    and "stat_errno fs' = stat_errno fs" and "ifstream_fails fs' = ifstream_fails fs"
    and "ofstream_fails fs' = ofstream_fails fs" and "clock fs' = clock fs"
    and "dirs fs' = dirs fs"
    and "b \<longrightarrow> files fs' (targetFile g) = Some (headerStream g pre @ codeStream g)"
    and "\<not> b \<longrightarrow> fs' = fs"
  using assms
  by (auto simp: commit_nonempty write_file_def read_file_def split: if_splits option.splits)

lemma createDirectory_effect:
  assumes "createDirectory d fs = (Inr u, fs')"
  shows "files fs' = files fs" and "stat_errno fs' = stat_errno fs" and "ifstream_fails fs' = ifstream_fails fs"
    and "ofstream_fails fs' = ofstream_fails fs" and "clock fs' = clock fs"
    and "path_exists fs' d" and "stat_errno fs d = None" and "path_exists fs d \<longrightarrow> fs' = fs"
  using assms
  by (auto simp: createDirectory_def FileInfo_new_def dir_create_def path_exists_def
      split: option.splits if_splits)

lemma file_remove_absent: "files fs t = None \<Longrightarrow> file_remove t fs = fs"
proof -
  assume "files fs t = None"
  then have "(files fs)(t := None) = files fs" by (simp add: fun_upd_idem)
  then show ?thesis by (simp add: file_remove_def)
qed

lemma removeFile_effect:
  assumes "removeFile t fs = (Inr u, fs')"
  shows "files fs' t = None" and "\<And>p. p \<noteq> t \<Longrightarrow> files fs' p = files fs p"
    and "stat_errno fs' = stat_errno fs" and "ifstream_fails fs' = ifstream_fails fs"
    and "ofstream_fails fs' = ofstream_fails fs" and "clock fs' = clock fs" and "dirs fs' = dirs fs"
    and "files fs t = None \<longrightarrow> fs' = fs"
proof -
  from assms have fs': "fs' = (if path_exists fs t then file_remove t fs else fs)"
    by (auto simp: removeFile_def FileInfo_new_def split: option.splits if_splits)
  then show "files fs' t = None" by (auto simp: file_remove_def path_exists_def)
  from fs' show "\<And>p. p \<noteq> t \<Longrightarrow> files fs' p = files fs p" by (auto simp: file_remove_def)
  from fs' show "stat_errno fs' = stat_errno fs" "ifstream_fails fs' = ifstream_fails fs"
    "ofstream_fails fs' = ofstream_fails fs" "clock fs' = clock fs" "dirs fs' = dirs fs"
    by (auto simp: file_remove_def)
  from fs' show "files fs t = None \<longrightarrow> fs' = fs" by (auto simp: file_remove_absent)
qed

lemma read_file_cong: "files fs' p = files fs p \<Longrightarrow> read_file fs' p = read_file fs p"
  by (simp add: read_file_def)

lemma inc_commit_effect:
  assumes "CppIncludeGenerator_commit incs pr g fs = (Inr b, fs')"
    and "codeStream (inc_base g) \<noteq> []"
    and "existingCode (inc_base g) = read_file fs (targetFile (inc_base g))"
  shows "(b \<longleftrightarrow> files fs' (targetFile (inc_base g)) \<noteq> None
            \<and> files fs' (targetFile (inc_base g)) \<noteq> files fs (targetFile (inc_base g)))
     \<and> (\<forall>p. p \<noteq> targetFile (inc_base g) \<longrightarrow> files fs' p = files fs p)
     \<and> (\<not> hasCppInterface g \<longrightarrow> files fs' (targetFile (inc_base g)) = None \<and> \<not> b)
     \<and> (hasCppInterface g \<longrightarrow>
          read_file fs' (targetFile (inc_base g))
            = headerStream (inc_base g) (includesPreamble incs) @ codeStream (inc_base g)
          \<and> path_exists fs' (includeDir g) \<and> stat_errno fs (includeDir g) = None)
     \<and> stat_errno fs' = stat_errno fs \<and> ifstream_fails fs' = ifstream_fails fs"
proof (cases "hasCppInterface g")
  case True
  with assms(1) obtain u fs1 where cd: "createDirectory (includeDir g) fs = (Inr u, fs1)"
    and c: "ExportsGenerator_commit (includesPreamble incs) (inc_base g) fs1 = (Inr b, fs')"
    by (auto simp: CppIncludeGenerator_commit_def split: prod.splits sum.splits)
  note D = createDirectory_effect [OF cd]
  from D(1) assms(3)
  have e: "existingCode (inc_base g) = read_file fs1 (targetFile (inc_base g))"
    by (simp add: read_file_def)
  note E = base_commit_effect [OF c assms(2) e]
  have "path_exists fs' (includeDir g)"
    using D(6) c assms(2)
    by (auto simp: commit_nonempty write_file_def path_exists_def split: if_splits)
  with True E(1,3,4,5) E(2) D(1,2,3,7) show ?thesis by simp
next
  case False
  with assms(1) obtain u where rm: "removeFile (targetFile (inc_base g)) fs = (Inr u, fs')"
    and "\<not> b"
    by (auto simp: CppIncludeGenerator_commit_def ExportsGenerator_remove_def
        split: prod.splits sum.splits)
  note F = removeFile_effect [OF rm]
  from False \<open>\<not> b\<close> F(1,3,4) F(2) show ?thesis by simp
qed

lemma apply_files_cong:
  assumes "\<forall>c \<in> set cf. parseSourceFile P fs' c = parseSourceFile P fs c"
  shows "apply_files f P fs' cf g = apply_files f P fs cf g"
  using assms by (induction cf arbitrary: g) (simp_all add: Let_def)

lemma apply_files_rel:
  assumes "\<And>sa g g'. R g g' \<Longrightarrow> R (f sa g) (f sa g')" and "R g g'"
  shows "R (apply_files f P fs cf g) (apply_files f P fs cf g')"
  using assms(2) by (induction cf arbitrary: g g') (simp_all add: Let_def assms(1))

lemma written_cpp_code:
  assumes "codeStream (cpp_base g) = codeStream (cpp_base g')"
  shows "codeStream (cpp_base (written_cpp P fs cf g)) = codeStream (cpp_base (written_cpp P fs cf g'))"
proof -
  have "codeStream (cpp_base (apply_files (CppExportsGenerator_writeFunctions P) P fs cf (CppExportsGenerator_writeBegin g)))
      = codeStream (cpp_base (apply_files (CppExportsGenerator_writeFunctions P) P fs cf (CppExportsGenerator_writeBegin g')))"
    by (rule apply_files_rel [where R = "\<lambda>g g'. codeStream (cpp_base g) = codeStream (cpp_base g')"])
       (simp_all add: CppExportsGenerator_writeFunctions_def CppExportsGenerator_writeBegin_def ostr_def assms)
  then show ?thesis
    by (simp add: written_cpp_def CppExportsGenerator_writeEnd_def ostr_def)
qed

lemma written_r_code:
  assumes "codeStream (r_base g) = codeStream (r_base g')" and "rExports g = rExports g'"
  shows "codeStream (r_base (written_r P fs cf g)) = codeStream (r_base (written_r P fs cf g'))"
proof -
  have "codeStream (r_base (apply_files (RExportsGenerator_writeFunctions P) P fs cf (RExportsGenerator_writeBegin g)))
      = codeStream (r_base (apply_files (RExportsGenerator_writeFunctions P) P fs cf (RExportsGenerator_writeBegin g')))
    \<and> rExports (apply_files (RExportsGenerator_writeFunctions P) P fs cf (RExportsGenerator_writeBegin g))
      = rExports (apply_files (RExportsGenerator_writeFunctions P) P fs cf (RExportsGenerator_writeBegin g'))"
    by (rule apply_files_rel [where R = "\<lambda>g g'. codeStream (r_base g) = codeStream (r_base g') \<and> rExports g = rExports g'"])
       (simp_all add: RExportsGenerator_writeFunctions_def RExportsGenerator_writeBegin_def ostr_def assms)
  then show ?thesis
    by (simp add: written_r_def RExportsGenerator_writeEnd_def ostr_def)
qed

lemma written_inc_code:
  assumes "codeStream (inc_base g) = codeStream (inc_base g')" and "scope g = scope g'"
    and "hasCppInterface g = hasCppInterface g'"
  shows "codeStream (inc_base (written_inc P fs cf g)) = codeStream (inc_base (written_inc P fs cf g'))"
proof -
  have "codeStream (inc_base (apply_files (CppIncludeGenerator_writeFunctions P) P fs cf (CppIncludeGenerator_writeBegin g)))
      = codeStream (inc_base (apply_files (CppIncludeGenerator_writeFunctions P) P fs cf (CppIncludeGenerator_writeBegin g')))"
    by (rule apply_files_rel [where R = "\<lambda>g g'. codeStream (inc_base g) = codeStream (inc_base g')"])
       (simp_all add: CppIncludeGenerator_writeFunctions_def CppIncludeGenerator_writeBegin_def ostr_def assms)
  then show ?thesis
    by (simp add: written_inc_def CppIncludeGenerator_writeEnd_def ostr_def)
qed

lemma token_in_generated: "sublist generatorToken (headerStream g pre @ code)"
proof -
  have "headerStream g pre @ code =
      (commentPrefix g @ '' This file was generated by '' @ ''Rcpp::compileAttributes'' @ endl
        @ commentPrefix g @ '' Generator token: '') @ generatorToken
      @ (endl @ endl @ (if pre \<noteq> [] then pre else []) @ code)"
    by (simp add: headerStream_def)
  then show ?thesis unfolding sublist_def by blast
qed

lemma ExportsGenerator_new_safe:
  assumes "stat_errno fs t = None" and "\<not> ifstream_fails fs t"
    and "read_file fs t = [] \<or> sublist generatorToken (read_file fs t)"
  shows "ExportsGenerator_new t pfx fs =
     Inr \<lparr>targetFile = t, commentPrefix = pfx, existingCode = read_file fs t, codeStream = []\<rparr>"
  using assms
  by (auto simp: ExportsGenerator_new_def FileInfo_new_def path_exists_def read_file_def
      isSafeToOverwrite_def string_find_None_iff split: option.splits)

lemma commit_unchanged:
  assumes "codeStream g \<noteq> []" and "existingCode g = headerStream g pre @ codeStream g"
  shows "ExportsGenerator_commit pre g fs = (Inr False, fs)"
  using assms by (simp add: commit_nonempty)

lemma CppExportsGenerator_new_Inr:
  assumes "CppExportsGenerator_new pd sep fs = Inr g"
  shows "cpp_base g = \<lparr>targetFile = manifest_path pd sep, commentPrefix = ''//'',
           existingCode = read_file fs (manifest_path pd sep), codeStream = []\<rparr>"
    and "stat_errno fs (manifest_path pd sep) = None"
  using assms
  by (auto simp: CppExportsGenerator_new_def manifest_path_def split: sum.splits
      dest!: ExportsGenerator_new_Inr)

lemma RExportsGenerator_new_Inr:
  assumes "RExportsGenerator_new pd sep fs = Inr g"
  shows "r_base g = \<lparr>targetFile = wrapper_path pd sep, commentPrefix = ''#'',
           existingCode = read_file fs (wrapper_path pd sep), codeStream = []\<rparr>"
    and "rExports g = []"
    and "stat_errno fs (wrapper_path pd sep) = None"
  using assms
  by (auto simp: RExportsGenerator_new_def wrapper_path_def split: sum.splits
      dest!: ExportsGenerator_new_Inr)

lemma CppIncludeGenerator_new_Inr:
  assumes "CppIncludeGenerator_new pd sep pn fs = Inr g"
  shows "inc_base g = \<lparr>targetFile = header_path pd sep pn, commentPrefix = ''//'',
           existingCode = read_file fs (header_path pd sep pn), codeStream = []\<rparr>"
    and "scope g = pn" and "\<not> hasCppInterface g"
    and "includeDir g = pd @ sep @ ''inst'' @ sep @ ''include''"
    and "stat_errno fs (header_path pd sep pn) = None"
  using assms
  by (auto simp: CppIncludeGenerator_new_def header_path_def split: sum.splits
      dest!: ExportsGenerator_new_Inr)

text \<open>The run of a successful call, step by step.\<close>

lemma compileAttributes_run:
  assumes "compileAttributes P pd pn cf bn incs v plat fs = (Inr wrote, fs')"
  obtains g1 g2 g3 b1 b2 b3 fsA fsB where
    "CppExportsGenerator_new pd (file_sep plat) fs = Inr g1"
    "RExportsGenerator_new pd (file_sep plat) fs = Inr g2"
    "CppIncludeGenerator_new pd (file_sep plat) pn fs = Inr g3"
    "CppExportsGenerator_commit incs (collected_prototypes P fs cf) (written_cpp P fs cf g1) fs = (Inr b1, fsA)"
    "RExportsGenerator_commit incs (collected_prototypes P fs cf) (written_r P fs cf g2) fsA = (Inr b2, fsB)"
    "CppIncludeGenerator_commit incs (collected_prototypes P fs cf) (written_inc P fs cf g3) fsB = (Inr b3, fs')"
    "wrote = (b1 \<or> b2 \<or> b3)"
  using assms unfolding compileAttributes_chain
  by (auto split: sum.splits prod.splits)

text \<open>What the three commits of a successful call do to the disk.\<close>

lemma compileAttributes_effect:
  assumes run: "compileAttributes P pd pn cf bn incs v plat fs = (Inr wrote, fs')"
  defines "t1 \<equiv> manifest_path pd (file_sep plat)"
    and "t2 \<equiv> wrapper_path pd (file_sep plat)"
    and "t3 \<equiv> header_path pd (file_sep plat) pn"
    and "native \<equiv> (\<exists>f \<in> set cf. \<not> attributes_empty (parseSourceFile P fs f)
                   \<and> hasInterface (parseSourceFile P fs f) (kInterfaceCpp P))"
  obtains g1 g2 g3 b1 b2 b3 where
    "CppExportsGenerator_new pd (file_sep plat) fs = Inr g1"
    "RExportsGenerator_new pd (file_sep plat) fs = Inr g2"
    "CppIncludeGenerator_new pd (file_sep plat) pn fs = Inr g3"
    "wrote = (b1 \<or> b2 \<or> b3)"
    "b1 \<longleftrightarrow> files fs' t1 \<noteq> None \<and> files fs' t1 \<noteq> files fs t1"
    "b2 \<longleftrightarrow> files fs' t2 \<noteq> None \<and> files fs' t2 \<noteq> files fs t2"
    "b3 \<longleftrightarrow> files fs' t3 \<noteq> None \<and> files fs' t3 \<noteq> files fs t3"
    "read_file fs' t1 = headerStream (cpp_base (written_cpp P fs cf g1))
         (includesPreamble incs @ prototypesPreamble (collected_prototypes P fs cf))
         @ codeStream (cpp_base (written_cpp P fs cf g1))"
    "read_file fs' t2 = headerStream (r_base (written_r P fs cf g2)) []
         @ codeStream (r_base (written_r P fs cf g2))"
    "native \<longrightarrow> read_file fs' t3 = headerStream (inc_base (written_inc P fs cf g3)) (includesPreamble incs)
         @ codeStream (inc_base (written_inc P fs cf g3))
       \<and> path_exists fs' (includeDir g3) \<and> stat_errno fs (includeDir g3) = None"
    "\<not> native \<longrightarrow> files fs' t3 = None"
    "hasCppInterface (written_inc P fs cf g3) = native"
    "stat_errno fs' = stat_errno fs" "ifstream_fails fs' = ifstream_fails fs"
proof -
  from run obtain g1 g2 g3 b1 b2 b3 fsA fsB where
    n1: "CppExportsGenerator_new pd (file_sep plat) fs = Inr g1"
    and n2: "RExportsGenerator_new pd (file_sep plat) fs = Inr g2"
    and n3: "CppIncludeGenerator_new pd (file_sep plat) pn fs = Inr g3"
    and c1: "CppExportsGenerator_commit incs (collected_prototypes P fs cf) (written_cpp P fs cf g1) fs = (Inr b1, fsA)"
    and c2: "RExportsGenerator_commit incs (collected_prototypes P fs cf) (written_r P fs cf g2) fsA = (Inr b2, fsB)"
    and c3: "CppIncludeGenerator_commit incs (collected_prototypes P fs cf) (written_inc P fs cf g3) fsB = (Inr b3, fs')"
    and w: "wrote = (b1 \<or> b2 \<or> b3)"
    by (rule compileAttributes_run)
  let ?A = "written_cpp P fs cf g1" and ?B = "written_r P fs cf g2" and ?C = "written_inc P fs cf g3"
  have d: "t1 \<noteq> t2" "t1 \<noteq> t3" "t2 \<noteq> t3" "t2 \<noteq> t1" "t3 \<noteq> t1" "t3 \<noteq> t2"
    using targets_distinct(1) [of pd "file_sep plat"] targets_distinct(2,3) [of pd "file_sep plat" pn]
    unfolding t1_def t2_def t3_def by (simp_all add: eq_commute)
  have tA: "targetFile (cpp_base ?A) = t1" and eA: "existingCode (cpp_base ?A) = read_file fs t1"
    by (simp_all add: written_cpp_base CppExportsGenerator_new_Inr(1) [OF n1] t1_def)
  have tB: "targetFile (r_base ?B) = t2" and eB: "existingCode (r_base ?B) = read_file fs t2"
    by (simp_all add: written_r_base RExportsGenerator_new_Inr(1) [OF n2] t2_def)
  have tC: "targetFile (inc_base ?C) = t3" and eC: "existingCode (inc_base ?C) = read_file fs t3"
    and iC: "includeDir ?C = includeDir g3"
    by (simp_all add: written_inc_base CppIncludeGenerator_new_Inr(1) [OF n3] t3_def)
  have hC: "hasCppInterface ?C = native"
    by (simp add: written_inc_hasCppInterface CppIncludeGenerator_new_Inr(3) [OF n3] native_def)
  \<comment> \<open>the manifest\<close>
  from c1 have c1': "ExportsGenerator_commit
      (includesPreamble incs @ prototypesPreamble (collected_prototypes P fs cf)) (cpp_base ?A) fs = (Inr b1, fsA)"
    by (simp add: CppExportsGenerator_commit_def)
  have eA': "existingCode (cpp_base ?A) = read_file fs (targetFile (cpp_base ?A))" by (simp add: eA tA)
  note A = base_commit_effect [OF c1' written_cpp_base(4) eA', unfolded tA]
  \<comment> \<open>the wrapper\<close>
  from c2 have c2': "ExportsGenerator_commit [] (r_base ?B) fsA = (Inr b2, fsB)"
    by (simp add: RExportsGenerator_commit_def)
  have fA2: "files fsA t2 = files fs t2" and fA3: "files fsA t3 = files fs t3"
    using A(2) d by simp_all
  have eB': "existingCode (r_base ?B) = read_file fsA (targetFile (r_base ?B))"
    by (simp add: eB tB read_file_cong [OF fA2])
  note B = base_commit_effect [OF c2' written_r_base(4) eB', unfolded tB]
  \<comment> \<open>the header\<close>
  have fB1: "files fsB t1 = files fsA t1" and fB3: "files fsB t3 = files fs t3"
    using B(2) d fA3 by simp_all
  have eC': "existingCode (inc_base ?C) = read_file fsB (targetFile (inc_base ?C))"
    by (simp add: eC tC read_file_cong [OF fB3])
  from inc_commit_effect [OF c3 written_inc_base(5) eC', unfolded tC hC iC]
  have C1: "b3 \<longleftrightarrow> files fs' t3 \<noteq> None \<and> files fs' t3 \<noteq> files fsB t3"
    and C2: "\<And>p. p \<noteq> t3 \<Longrightarrow> files fs' p = files fsB p"
    and C3: "\<not> native \<longrightarrow> files fs' t3 = None \<and> \<not> b3"
    and C4: "native \<longrightarrow> read_file fs' t3
               = headerStream (inc_base ?C) (includesPreamble incs) @ codeStream (inc_base ?C)
             \<and> path_exists fs' (includeDir g3) \<and> stat_errno fsB (includeDir g3) = None"
    and C5: "stat_errno fs' = stat_errno fsB" and C6: "ifstream_fails fs' = ifstream_fails fsB"
    by simp_all
  have f1: "files fs' t1 = files fsA t1" and f2: "files fs' t2 = files fsB t2"
    using C2 d fB1 by simp_all
  show thesis
  proof (rule that [OF n1 n2 n3 w])
    show "b1 \<longleftrightarrow> files fs' t1 \<noteq> None \<and> files fs' t1 \<noteq> files fs t1"
      using A(1) by (simp add: f1)
    show "b2 \<longleftrightarrow> files fs' t2 \<noteq> None \<and> files fs' t2 \<noteq> files fs t2"
      using B(1) by (simp add: f2 fA2)
    show "b3 \<longleftrightarrow> files fs' t3 \<noteq> None \<and> files fs' t3 \<noteq> files fs t3"
      using C1 by (simp add: fB3)
    show "read_file fs' t1 = headerStream (cpp_base ?A)
         (includesPreamble incs @ prototypesPreamble (collected_prototypes P fs cf))
         @ codeStream (cpp_base ?A)"
      using A(3) by (simp add: read_file_cong [OF f1])
    show "read_file fs' t2 = headerStream (r_base ?B) [] @ codeStream (r_base ?B)"
      using B(3) by (simp add: read_file_cong [OF f2])
    show "native \<longrightarrow> read_file fs' t3 = headerStream (inc_base ?C) (includesPreamble incs)
         @ codeStream (inc_base ?C)
       \<and> path_exists fs' (includeDir g3) \<and> stat_errno fs (includeDir g3) = None"
      using C4 by (simp add: B(4) A(4))
    show "\<not> native \<longrightarrow> files fs' t3 = None" using C3 by simp
    show "hasCppInterface ?C = native" by (rule hC)
    show "stat_errno fs' = stat_errno fs" by (simp add: C5 B(4) A(4))
    show "ifstream_fails fs' = ifstream_fails fs" by (simp add: C6 B(5) A(5))
  qed
qed

lemmas compile_eval =
  compileAttributes_def CppExportsGenerator_new_def RExportsGenerator_new_def
  CppIncludeGenerator_new_def ExportsGenerator_new_def FileInfo_new_def path_exists_def
  read_file_def isSafeToOverwrite_def generatorToken_def ExportsGenerators_writeBegin_def
  ExportsGenerators_writeEnd_def ExportsGenerators_writeFunctions_def
  ExportsGenerators_commit_def CppExportsGenerator_writeBegin_def
  CppExportsGenerator_writeFunctions_def CppExportsGenerator_writeEnd_def
  CppExportsGenerator_commit_def RExportsGenerator_writeBegin_def
  RExportsGenerator_writeFunctions_def RExportsGenerator_writeEnd_def
  RExportsGenerator_commit_def CppIncludeGenerator_writeBegin_def
  CppIncludeGenerator_writeFunctions_def CppIncludeGenerator_writeEnd_def
  CppIncludeGenerator_commit_def ExportsGenerator_commit_def ExportsGenerator_remove_def
  removeFile_def createDirectory_def file_remove_def dir_create_def write_file_def
  headerStream_def includesPreamble_def prototypesPreamble_def ostr_def attributes_empty_def
  hasInterface_def isExportedFunction_def exportedName_def function_empty_def
  generateRoxygenPlaceholder_def example_parser_def example_platform_def empty_disk_def
  Let_def endl_def dquote_def

lemma example_parser_parse:
  "parseSourceFile example_parser fs p =
     \<lparr>sourceFile = p,
      attributes =
        (if files fs p = None then []
         else [\<lparr>attribute_name = ''export'', attribute_params = [],
                attribute_function =
                  \<lparr>function_type = ''int'', function_name = ''f'', function_arguments = []\<rparr>,
                attribute_roxygen = []\<rparr>]),
      prototypes = (if files fs p = None then [] else [''int f()'']),
      interfaces = [''r'']\<rparr>"
  by (simp add: example_parser_def)

lemma package_first_run:
  "fst (compileAttributes example_parser ''pkg'' ''p'' [''pkg/src/a.cpp''] [''a.cpp''] []
          False example_platform package_disk) = Inr True"
  "files (snd (compileAttributes example_parser ''pkg'' ''p'' [''pkg/src/a.cpp''] [''a.cpp''] []
                 False example_platform package_disk)) ''pkg/src/a.cpp''
     = Some ''int f() { return 1; }''"
  by (simp_all add: compile_eval package_disk_def)

subsection \<open>The flag compileAttributes returns\<close>

lemma interface_only_run:
  "compileAttributes interface_only_parser ''pkg'' ''p'' [''pkg/src/a.cpp''] [''a.cpp''] [] False
     example_platform interface_only_disk
   = (Inr False, interface_only_disk)"
  by (simp add: compile_eval interface_only_parser_def interface_only_disk_def)

text \<open>
  C1, as the claim states it, fails, in two ways.  In a package whose manifest
  and wrapper script are up to date and whose only source file declares no C++
  interface, the forwarding header left from an earlier run is deleted, and
  \<^verbatim>\<open>compileAttributes\<close> returns false: the removal does not set the flag.  And
  in a package whose only source file declares the C++ interface and exports
  nothing, a batch with zero native-interface exports, the forwarding header
  that existed is not deleted: it stays on the disk, and \<^verbatim>\<open>compileAttributes\<close>
  returns false.
\<close>

theorem C1_header_removed_counterexample:
  "files synced_disk ''pkg/inst/include/p.hpp'' \<noteq> None
   \<and> compileAttributes example_parser ''pkg'' ''p'' [''pkg/src/a.cpp''] [''a.cpp''] [] False
        example_platform synced_disk
     = (Inr False, file_remove ''pkg/inst/include/p.hpp'' synced_disk)
   \<and> files (file_remove ''pkg/inst/include/p.hpp'' synced_disk) ''pkg/inst/include/p.hpp''
     = None
   \<and> filter (isExportedFunction interface_only_parser)
        (attributes (parseSourceFile interface_only_parser interface_only_disk
                       ''pkg/src/a.cpp'')) = []
   \<and> files interface_only_disk ''pkg/inst/include/p.hpp'' \<noteq> None
   \<and> compileAttributes interface_only_parser ''pkg'' ''p'' [''pkg/src/a.cpp''] [''a.cpp''] []
        False example_platform interface_only_disk
     = (Inr False, interface_only_disk)"
proof -
  have "files synced_disk ''pkg/inst/include/p.hpp'' \<noteq> None
   \<and> compileAttributes example_parser ''pkg'' ''p'' [''pkg/src/a.cpp''] [''a.cpp''] [] False
        example_platform synced_disk
     = (Inr False, file_remove ''pkg/inst/include/p.hpp'' synced_disk)
   \<and> files (file_remove ''pkg/inst/include/p.hpp'' synced_disk) ''pkg/inst/include/p.hpp''
     = None"
    by (simp add: compile_eval synced_disk_def)
  moreover have "filter (isExportedFunction interface_only_parser)
        (attributes (parseSourceFile interface_only_parser interface_only_disk
                       ''pkg/src/a.cpp'')) = []
   \<and> files interface_only_disk ''pkg/inst/include/p.hpp'' \<noteq> None"
    by (simp add: interface_only_parser_def interface_only_disk_def isExportedFunction_def)
  ultimately show ?thesis using interface_only_run by simp
qed

text \<open>
  C1, amended.  When \<^verbatim>\<open>compileAttributes\<close> returns, the flag is true if and
  only if at least one of the three target files was written with changed
  content: it is on the disk afterwards with a content it did not have before.
  The removal of the forwarding header does not set the flag.  The forwarding
  header is absent from the disk afterwards, deleted if it existed, exactly
  when no file of the batch that has attributes declares the C++ interface;
  when such a file declares it, whether or not it exports anything, the header
  is on the disk afterwards.
\<close>

theorem C1_flag_reports_writes:
  assumes "compileAttributes P pd pn cf bn incs v plat fs = (Inr wrote, fs')"
  shows "(wrote \<longleftrightarrow>
           (\<exists>p \<in> {manifest_path pd (file_sep plat), wrapper_path pd (file_sep plat),
                   header_path pd (file_sep plat) pn}.
               files fs' p \<noteq> None \<and> files fs' p \<noteq> files fs p))
     \<and> (files fs' (header_path pd (file_sep plat) pn) = None \<longleftrightarrow>
          (\<forall>f \<in> set cf. attributes_empty (parseSourceFile P fs f)
                     \<or> \<not> hasInterface (parseSourceFile P fs f) (kInterfaceCpp P)))"
proof -
  let ?t3 = "header_path pd (file_sep plat) pn"
  let ?native = "\<exists>f \<in> set cf. \<not> attributes_empty (parseSourceFile P fs f)
                   \<and> hasInterface (parseSourceFile P fs f) (kInterfaceCpp P)"
  from assms obtain g3 b1 b2 b3 where w: "wrote = (b1 \<or> b2 \<or> b3)"
    and b1: "b1 \<longleftrightarrow> files fs' (manifest_path pd (file_sep plat)) \<noteq> None
            \<and> files fs' (manifest_path pd (file_sep plat))
                \<noteq> files fs (manifest_path pd (file_sep plat))"
    and b2: "b2 \<longleftrightarrow> files fs' (wrapper_path pd (file_sep plat)) \<noteq> None
            \<and> files fs' (wrapper_path pd (file_sep plat))
                \<noteq> files fs (wrapper_path pd (file_sep plat))"
    and b3: "b3 \<longleftrightarrow> files fs' ?t3 \<noteq> None \<and> files fs' ?t3 \<noteq> files fs ?t3"
    and r3: "?native \<longrightarrow> read_file fs' ?t3
               = headerStream (inc_base (written_inc P fs cf g3)) (includesPreamble incs)
                 @ codeStream (inc_base (written_inc P fs cf g3))
             \<and> path_exists fs' (includeDir g3) \<and> stat_errno fs (includeDir g3) = None"
    and r3': "\<not> ?native \<longrightarrow> files fs' ?t3 = None"
    by (rule compileAttributes_effect) blast
  have flag: "wrote \<longleftrightarrow>
           (\<exists>p \<in> {manifest_path pd (file_sep plat), wrapper_path pd (file_sep plat), ?t3}.
               files fs' p \<noteq> None \<and> files fs' p \<noteq> files fs p)"
    using w b1 b2 b3 by auto
  have "files fs' ?t3 \<noteq> None" if "?native"
  proof
    assume "files fs' ?t3 = None"
    then have "read_file fs' ?t3 = []" by (simp add: read_file_def)
    with r3 that show False by (simp add: headerStream_def)
  qed
  with r3' have "files fs' ?t3 = None \<longleftrightarrow> \<not> ?native" by blast
  with flag show ?thesis by simp
qed

theorem C1_flag_reports_writes_witness:
  "fst (compileAttributes example_parser ''pkg'' ''p'' [''pkg/src/a.cpp''] [''a.cpp''] []
          False example_platform package_disk) = Inr True
   \<and> (\<exists>p \<in> {manifest_path ''pkg'' ''/'', wrapper_path ''pkg'' ''/'',
              header_path ''pkg'' ''/'' ''p''}.
         files (snd (compileAttributes example_parser ''pkg'' ''p'' [''pkg/src/a.cpp'']
                       [''a.cpp''] [] False example_platform package_disk)) p \<noteq> None
         \<and> files (snd (compileAttributes example_parser ''pkg'' ''p'' [''pkg/src/a.cpp'']
                         [''a.cpp''] [] False example_platform package_disk)) p
           \<noteq> files package_disk p)
   \<and> files (snd (compileAttributes example_parser ''pkg'' ''p'' [''pkg/src/a.cpp'']
                   [''a.cpp''] [] False example_platform package_disk))
        (header_path ''pkg'' ''/'' ''p'') = None
   \<and> hasInterface (parseSourceFile interface_only_parser interface_only_disk ''pkg/src/a.cpp'')
        (kInterfaceCpp interface_only_parser)
   \<and> files interface_only_disk (header_path ''pkg'' ''/'' ''p'') \<noteq> None"
proof -
  let ?run = "compileAttributes example_parser ''pkg'' ''p'' [''pkg/src/a.cpp''] [''a.cpp''] []
                False example_platform package_disk"
  have r: "?run = (Inr True, snd ?run)"
    by (simp add: prod_eq_iff package_first_run(1))
  have s: "file_sep example_platform = ''/''" by (simp add: example_platform_def)
  have i: "\<not> hasInterface (parseSourceFile example_parser package_disk ''pkg/src/a.cpp'')
               (kInterfaceCpp example_parser)"
    by (simp add: example_parser_def hasInterface_def)
  have j: "hasInterface (parseSourceFile interface_only_parser interface_only_disk
                           ''pkg/src/a.cpp'') (kInterfaceCpp interface_only_parser)"
    "\<not> attributes_empty (parseSourceFile interface_only_parser interface_only_disk
                              ''pkg/src/a.cpp'')"
    by (simp_all add: interface_only_parser_def interface_only_disk_def hasInterface_def
        attributes_empty_def)
  from C1_flag_reports_writes [OF r] i
  have one: "(\<exists>p \<in> {manifest_path ''pkg'' ''/'', wrapper_path ''pkg'' ''/'',
              header_path ''pkg'' ''/'' ''p''}.
         files (snd ?run) p \<noteq> None \<and> files (snd ?run) p \<noteq> files package_disk p)
     \<and> files (snd ?run) (header_path ''pkg'' ''/'' ''p'') = None"
    by (auto simp: s)
  from C1_flag_reports_writes [OF interface_only_run] j
  have two: "files interface_only_disk (header_path ''pkg'' ''/'' ''p'') \<noteq> None"
    by (auto simp: s)
  from one two j(1) show ?thesis
    by (auto simp: package_first_run(1))
qed

subsection \<open>Running compileAttributes twice\<close>

text \<open>
  C7.  When \<^verbatim>\<open>compileAttributes\<close> has returned, a second run with the same
  arguments on the disk the first one left returns false and writes and
  removes nothing, provided the parser finds in each source file what it found
  in the first run and the three target files can be opened for reading.
\<close>

theorem C7_second_run_writes_nothing:
  assumes run: "compileAttributes P pd pn cf bn incs v plat fs = (Inr wrote, fs')"
    and same: "\<forall>f \<in> set cf. parseSourceFile P fs' f = parseSourceFile P fs f"
    and readable: "\<not> ifstream_fails fs (manifest_path pd (file_sep plat))"
      "\<not> ifstream_fails fs (wrapper_path pd (file_sep plat))"
      "\<not> ifstream_fails fs (header_path pd (file_sep plat) pn)"
  shows "compileAttributes P pd pn cf bn incs v plat fs' = (Inr False, fs')"
proof -
  let ?sep = "file_sep plat"
  let ?t1 = "manifest_path pd ?sep" and ?t2 = "wrapper_path pd ?sep" and ?t3 = "header_path pd ?sep pn"
  let ?pr = "collected_prototypes P fs cf"
  let ?native = "\<exists>f \<in> set cf. \<not> attributes_empty (parseSourceFile P fs f)
                   \<and> hasInterface (parseSourceFile P fs f) (kInterfaceCpp P)"
  from run obtain g1 g2 g3 b1 b2 b3 where
    n1: "CppExportsGenerator_new pd ?sep fs = Inr g1"
    and n2: "RExportsGenerator_new pd ?sep fs = Inr g2"
    and n3: "CppIncludeGenerator_new pd ?sep pn fs = Inr g3"
    and r1: "read_file fs' ?t1 = headerStream (cpp_base (written_cpp P fs cf g1))
         (includesPreamble incs @ prototypesPreamble ?pr) @ codeStream (cpp_base (written_cpp P fs cf g1))"
    and r2: "read_file fs' ?t2 = headerStream (r_base (written_r P fs cf g2)) []
         @ codeStream (r_base (written_r P fs cf g2))"
    and r3: "?native \<longrightarrow> read_file fs' ?t3 = headerStream (inc_base (written_inc P fs cf g3)) (includesPreamble incs)
         @ codeStream (inc_base (written_inc P fs cf g3))
       \<and> path_exists fs' (includeDir g3) \<and> stat_errno fs (includeDir g3) = None"
    and r3': "\<not> ?native \<longrightarrow> files fs' ?t3 = None"
    and h3: "hasCppInterface (written_inc P fs cf g3) = ?native"
    and st: "stat_errno fs' = stat_errno fs" and rd: "ifstream_fails fs' = ifstream_fails fs"
    by (rule compileAttributes_effect) blast
  \<comment> \<open>the parser sees the same attributes\<close>
  have wc: "written_cpp P fs' cf = written_cpp P fs cf"
    and wr: "written_r P fs' cf = written_r P fs cf"
    and wi: "written_inc P fs' cf = written_inc P fs cf"
    and pr: "collected_prototypes P fs' cf = ?pr"
    by (simp_all add: fun_eq_iff written_cpp_def written_r_def written_inc_def collected_prototypes_def
        apply_files_cong [OF same])
  \<comment> \<open>the constructors of the second run\<close>
  define h1 where "h1 = \<lparr>cpp_base = \<lparr>targetFile = ?t1, commentPrefix = ''//'',
      existingCode = read_file fs' ?t1, codeStream = []\<rparr>\<rparr>"
  define h2 where "h2 = \<lparr>r_base = \<lparr>targetFile = ?t2, commentPrefix = ''#'',
      existingCode = read_file fs' ?t2, codeStream = []\<rparr>, rExports = []\<rparr>"
  define h3 where "h3 = \<lparr>inc_base = \<lparr>targetFile = ?t3, commentPrefix = ''//'',
      existingCode = read_file fs' ?t3, codeStream = []\<rparr>,
      scope = pn, includeDir = pd @ ?sep @ ''inst'' @ ?sep @ ''include'', hasCppInterface = False\<rparr>"
  have f1: "targetFile (cpp_base h1) = ?t1" "commentPrefix (cpp_base h1) = ''//''"
      "existingCode (cpp_base h1) = read_file fs' ?t1" "codeStream (cpp_base h1) = []"
    by (simp_all add: h1_def)
  have f2: "targetFile (r_base h2) = ?t2" "commentPrefix (r_base h2) = ''#''"
      "existingCode (r_base h2) = read_file fs' ?t2" "codeStream (r_base h2) = []" "rExports h2 = []"
    by (simp_all add: h2_def)
  have f3: "targetFile (inc_base h3) = ?t3" "commentPrefix (inc_base h3) = ''//''"
      "existingCode (inc_base h3) = read_file fs' ?t3" "codeStream (inc_base h3) = []"
      "scope h3 = pn" "\<not> hasCppInterface h3" "includeDir h3 = pd @ ?sep @ ''inst'' @ ?sep @ ''include''"
    by (simp_all add: h3_def)
  have s1: "stat_errno fs' ?t1 = None" and s2: "stat_errno fs' ?t2 = None" and s3: "stat_errno fs' ?t3 = None"
    by (simp_all add: st CppExportsGenerator_new_Inr(2) [OF n1] RExportsGenerator_new_Inr(3) [OF n2]
        CppIncludeGenerator_new_Inr(5) [OF n3])
  have "ExportsGenerator_new ?t1 ''//'' fs' =
      Inr \<lparr>targetFile = ?t1, commentPrefix = ''//'', existingCode = read_file fs' ?t1, codeStream = []\<rparr>"
    by (rule ExportsGenerator_new_safe) (simp_all add: s1 rd readable r1 token_in_generated)
  then have m1: "CppExportsGenerator_new pd ?sep fs' = Inr h1"
    by (simp add: CppExportsGenerator_new_def manifest_path_def h1_def)
  have "ExportsGenerator_new ?t2 ''#'' fs' =
      Inr \<lparr>targetFile = ?t2, commentPrefix = ''#'', existingCode = read_file fs' ?t2, codeStream = []\<rparr>"
    by (rule ExportsGenerator_new_safe) (simp_all add: s2 rd readable r2 token_in_generated)
  then have m2: "RExportsGenerator_new pd ?sep fs' = Inr h2"
    by (simp add: RExportsGenerator_new_def wrapper_path_def h2_def)
  have safe3: "read_file fs' ?t3 = [] \<or> sublist generatorToken (read_file fs' ?t3)"
  proof (cases ?native)
    case True
    with r3 show ?thesis by (simp add: token_in_generated)
  next
    case False
    with r3' show ?thesis by (simp add: read_file_def)
  qed
  have "ExportsGenerator_new ?t3 ''//'' fs' =
      Inr \<lparr>targetFile = ?t3, commentPrefix = ''//'', existingCode = read_file fs' ?t3, codeStream = []\<rparr>"
    by (rule ExportsGenerator_new_safe) (simp_all add: s3 rd readable safe3)
  then have m3: "CppIncludeGenerator_new pd ?sep pn fs' = Inr h3"
    by (simp add: CppIncludeGenerator_new_def header_path_def h3_def)
  \<comment> \<open>the commits of the second run\<close>
  have k1: "codeStream (cpp_base (written_cpp P fs cf h1)) = codeStream (cpp_base (written_cpp P fs cf g1))"
    by (rule written_cpp_code) (simp add: CppExportsGenerator_new_Inr(1) [OF n1] f1)
  have "headerStream (cpp_base (written_cpp P fs cf h1)) x = headerStream (cpp_base (written_cpp P fs cf g1)) x" for x
    by (simp add: headerStream_def written_cpp_base CppExportsGenerator_new_Inr(1) [OF n1] f1)
  with k1 r1 have c1: "CppExportsGenerator_commit incs ?pr (written_cpp P fs cf h1) fs' = (Inr False, fs')"
    unfolding CppExportsGenerator_commit_def
    by (intro commit_unchanged) (simp_all add: written_cpp_base f1)
  have k2: "codeStream (r_base (written_r P fs cf h2)) = codeStream (r_base (written_r P fs cf g2))"
    by (rule written_r_code) (simp_all add: RExportsGenerator_new_Inr(1,2) [OF n2] f2)
  have "headerStream (r_base (written_r P fs cf h2)) x = headerStream (r_base (written_r P fs cf g2)) x" for x
    by (simp add: headerStream_def written_r_base RExportsGenerator_new_Inr(1) [OF n2] f2)
  with k2 r2 have c2: "RExportsGenerator_commit incs ?pr (written_r P fs cf h2) fs' = (Inr False, fs')"
    unfolding RExportsGenerator_commit_def
    by (intro commit_unchanged) (simp_all add: written_r_base f2)
  have k3: "codeStream (inc_base (written_inc P fs cf h3)) = codeStream (inc_base (written_inc P fs cf g3))"
    by (rule written_inc_code) (simp_all add: CppIncludeGenerator_new_Inr(1,2,3) [OF n3] f3)
  have hh: "headerStream (inc_base (written_inc P fs cf h3)) x = headerStream (inc_base (written_inc P fs cf g3)) x" for x
    by (simp add: headerStream_def written_inc_base CppIncludeGenerator_new_Inr(1) [OF n3] f3)
  have h3': "hasCppInterface (written_inc P fs cf h3) = ?native"
    by (simp add: written_inc_hasCppInterface f3)
  have c3: "CppIncludeGenerator_commit incs ?pr (written_inc P fs cf h3) fs' = (Inr False, fs')"
  proof (cases ?native)
    case True
    with r3 have ex: "path_exists fs' (includeDir g3)" and se: "stat_errno fs' (includeDir g3) = None"
      and r: "read_file fs' ?t3 = headerStream (inc_base (written_inc P fs cf g3)) (includesPreamble incs)
         @ codeStream (inc_base (written_inc P fs cf g3))"
      by (simp_all add: st)
    have id: "includeDir (written_inc P fs cf h3) = includeDir g3"
      by (simp add: written_inc_base CppIncludeGenerator_new_Inr(4) [OF n3] f3)
    have cd: "createDirectory (includeDir g3) fs' = (Inr (), fs')"
      using ex se by (simp add: createDirectory_def FileInfo_new_ok)
    have "ExportsGenerator_commit (includesPreamble incs) (inc_base (written_inc P fs cf h3)) fs' = (Inr False, fs')"
      using r k3 hh by (intro commit_unchanged) (simp_all add: written_inc_base f3)
    moreover from True h3' have "hasCppInterface (written_inc P fs cf h3)" by blast
    ultimately show ?thesis
      by (simp add: CppIncludeGenerator_commit_def id cd)
  next
    case False
    with r3' have "files fs' ?t3 = None" by simp
    then have "removeFile ?t3 fs' = (Inr (), fs')"
      using s3 by (simp add: removeFile_def FileInfo_new_ok file_remove_absent)
    moreover from False h3' have "\<not> hasCppInterface (written_inc P fs cf h3)" by blast
    ultimately show ?thesis
      by (simp add: CppIncludeGenerator_commit_def ExportsGenerator_remove_def written_inc_base f3)
  qed
  show ?thesis
    unfolding compileAttributes_chain
    by (simp add: m1 m2 m3 wc wr wi pr c1 c2 c3)
qed

theorem C7_second_run_writes_nothing_witness:
  "fst (compileAttributes example_parser ''pkg'' ''p'' [''pkg/src/a.cpp''] [''a.cpp''] []
          False example_platform package_disk) = Inr True
   \<and> compileAttributes example_parser ''pkg'' ''p'' [''pkg/src/a.cpp''] [''a.cpp''] []
        False example_platform
        (snd (compileAttributes example_parser ''pkg'' ''p'' [''pkg/src/a.cpp''] [''a.cpp''] []
                False example_platform package_disk))
     = (Inr False,
        snd (compileAttributes example_parser ''pkg'' ''p'' [''pkg/src/a.cpp''] [''a.cpp''] []
               False example_platform package_disk))"
proof -
  let ?run = "compileAttributes example_parser ''pkg'' ''p'' [''pkg/src/a.cpp''] [''a.cpp''] []
                False example_platform package_disk"
  have r: "?run = (Inr True, snd ?run)"
    by (simp add: prod_eq_iff package_first_run(1))
  have "files package_disk ''pkg/src/a.cpp'' = Some ''int f() { return 1; }''"
    by (simp add: package_disk_def)
  then have same: "\<forall>f \<in> set [''pkg/src/a.cpp''].
      parseSourceFile example_parser (snd ?run) f = parseSourceFile example_parser package_disk f"
    by (simp add: example_parser_parse package_first_run(2))
  have readable: "\<not> ifstream_fails package_disk p" for p
    by (simp add: package_disk_def empty_disk_def)
  from C7_second_run_writes_nothing [OF r same readable readable readable]
  show ?thesis
    by (simp add: package_first_run(1))
qed

end
